theory Spec2Isabelle
  imports Main
begin

section \<open>Python string primitives used by the sources\<close>

text \<open>
  Python 2 \<open>str\<close> values are byte strings; they are modelled as \<open>string\<close>
  (lists of characters).  Only the library operations that the two source
  files call are embedded.
\<close>

definition lstrip :: "string \<Rightarrow> string \<Rightarrow> string" where
  \<comment> \<open>\<open>s.lstrip(chars)\<close>: drop leading characters that occur in \<open>chars\<close>\<close>
  "lstrip chars s = dropWhile (\<lambda>c. c \<in> set chars) s"

definition rstrip :: "string \<Rightarrow> string \<Rightarrow> string" where
  \<comment> \<open>\<open>s.rstrip(chars)\<close>: drop trailing characters that occur in \<open>chars\<close>\<close>
  "rstrip chars s = rev (dropWhile (\<lambda>c. c \<in> set chars) (rev s))"

definition strip :: "string \<Rightarrow> string \<Rightarrow> string" where
  \<comment> \<open>\<open>s.strip(chars)\<close>: both ends\<close>
  "strip chars s = rstrip chars (lstrip chars s)"

definition startswith :: "string \<Rightarrow> string \<Rightarrow> bool" where
  \<comment> \<open>\<open>s.startswith(p)\<close>\<close>
  "startswith s p = (take (length p) s = p)"

definition join :: "string \<Rightarrow> string list \<Rightarrow> string" where
  \<comment> \<open>\<open>sep.join(xs)\<close>\<close>
  "join sep xs = (case xs of [] \<Rightarrow> [] | y # ys \<Rightarrow> y @ concat (map (\<lambda>z. sep @ z) ys))"

definition rfind :: "char \<Rightarrow> string \<Rightarrow> nat option" where
  \<comment> \<open>\<open>s.rfind(c)\<close> for a one-character needle: index of the last occurrence,
      \<open>None\<close> standing for Python's \<open>-1\<close>\<close>
  "rfind c s =
     (if c \<in> set s then Some (length s - 1 - length (takeWhile (\<lambda>d. d \<noteq> c) (rev s)))
      else None)"

definition rsplit1 :: "char \<Rightarrow> string \<Rightarrow> string list" where
  \<comment> \<open>\<open>s.rsplit(c, 1)\<close>: split once, at the last occurrence of \<open>c\<close>\<close>
  "rsplit1 c s =
     (case rfind c s of
        None \<Rightarrow> [s]
      | Some i \<Rightarrow> [take i s, drop (Suc i) s])"

definition digit :: "nat \<Rightarrow> char" where
  "digit n = ''0123456789'' ! (n mod 10)"

fun dec_nat :: "nat \<Rightarrow> string" where
  "dec_nat n = (if n < 10 then [digit n] else dec_nat (n div 10) @ [digit n])"

definition fmt_d :: "int \<Rightarrow> string" where
  \<comment> \<open>the text produced by \<open>"%d" % n\<close>\<close>
  "fmt_d n = (if n < 0 then CHR ''-'' # dec_nat (nat (- n)) else dec_nat (nat n))"

definition leading_seps :: "string \<Rightarrow> nat" where
  \<comment> \<open>number of separators at the start of a path string\<close>
  "leading_seps s = length (takeWhile (\<lambda>c. c = CHR ''/'') s)"

definition trailing_seps :: "string \<Rightarrow> nat" where
  \<comment> \<open>number of separators at the end of a path string\<close>
  "trailing_seps s = length (takeWhile (\<lambda>c. c = CHR ''/'') (rev s))"

definition os_path_basename :: "string \<Rightarrow> string" where
  \<comment> \<open>\<open>posixpath.basename\<close>: \<open>i = p.rfind('/') + 1; return p[i:]\<close>\<close>
  "os_path_basename p = (case rfind (CHR ''/'') p of None \<Rightarrow> p | Some i \<Rightarrow> drop (Suc i) p)"

definition os_path_dirname :: "string \<Rightarrow> string" where
  \<comment> \<open>\<open>posixpath.dirname\<close>: the head up to the last separator, with trailing
      separators removed unless the head consists of separators only\<close>
  "os_path_dirname p =
     (let head = (case rfind (CHR ''/'') p of None \<Rightarrow> [] | Some i \<Rightarrow> take (Suc i) p)
      in if head \<noteq> [] \<and> head \<noteq> replicate (length head) (CHR ''/'')
         then rstrip ''/'' head else head)"

definition os_path_join :: "string \<Rightarrow> string \<Rightarrow> string" where
  \<comment> \<open>\<open>posixpath.join(a, b)\<close>\<close>
  "os_path_join a b =
     (if startswith b ''/'' then b
      else if a = [] \<or> last a = CHR ''/'' then a @ b
      else a @ ''/'' @ b)"

section \<open>Prefix normalisation (\<open>gbp/scripts/common/buildpackage.py\<close>)\<close>

definition sanitize_prefix :: "string \<Rightarrow> string" where
  "sanitize_prefix prefix =
     (if prefix \<noteq> [] then strip ''/'' prefix @ ''/'' else ''/'')"

definition tarpath :: "string \<Rightarrow> string" where
  \<comment> \<open>\<open>[subdir, subdir[2:]][subdir.startswith("./")]\<close>\<close>
  "tarpath subdir = (if startswith subdir ''./'' then drop 2 subdir else subdir)"

definition submodule_prefix :: "string \<Rightarrow> string \<Rightarrow> string" where
  \<comment> \<open>\<open>'%s%s/' % (prefix, tarpath)\<close>\<close>
  "submodule_prefix prefix subdir = prefix @ tarpath subdir @ ''/''"

section \<open>Exceptions, external calls and the process state\<close>

text \<open>
  Exceptions are values.  The constructors follow the classes that the
  \<open>except\<close> clauses of the sources tell apart: \<open>OSError\<close> (with its
  \<open>errno\<close>, which is \<open>err[0]\<close>, and its text), \<open>GbpError\<close> (with its
  message), \<open>CommandExecFailed\<close> (no payload), any other class derived from
  \<open>Exception\<close>, and the classes that derive from \<open>BaseException\<close> only
  (\<open>KeyboardInterrupt\<close>, \<open>SystemExit\<close>), which \<open>except Exception\<close> does
  not match.
\<close>

datatype exn =
    OSError int string
  | GbpError string
  | CommandExecFailed
  | OtherException string
  | BaseExc string

definition is_Exception :: "exn \<Rightarrow> bool" where
  \<comment> \<open>\<open>isinstance(e, Exception)\<close>\<close>
  "is_Exception e = (case e of BaseExc m \<Rightarrow> False | _ \<Rightarrow> True)"

definition exn_str :: "exn \<Rightarrow> string" where
  \<comment> \<open>\<open>str(e)\<close>\<close>
  "exn_str e =
     (case e of OSError n s \<Rightarrow> s | GbpError m \<Rightarrow> m | CommandExecFailed \<Rightarrow> []
      | OtherException m \<Rightarrow> m | BaseExc m \<Rightarrow> m)"

text \<open>
  Every call that leaves the Python process is recorded, with its arguments,
  in a trace, in the order the calls are made and whether or not the call
  succeeds.  A pipeline (\<open>pipes.Template\<close>) is the list of its steps, each a
  command line with its kind string.
\<close>

type_synonym pipeline = "(string \<times> string) list"

datatype event =
    Mkdtemp
  | Rmtree string
  | RepoArchive string string string string "string option"
  | RepoGetSubmodules string
  | RepoListTree string
  | RepoHasSubmodules
  | RepoUpdateSubmodules
  | CatenateTar string string
  | OsSystem string
  | PipeCopy pipeline string string
  | Chdir string
  | LogDebug string
  | LogInfo string
  | LogErr string
  | SubprocessCall "string list"
  | PrintVerbose string "string list" "string list"
  | PrintStderr string

text \<open>
  The collaborators that are not part of the sources (the repository object,
  \<open>CatenateTarArchive\<close>, the shell, the operating system) are parameters:
  for each call the environment fixes the outcome, which may depend on the
  arguments and on everything that happened before (the trace at the time of
  the call).  \<open>None\<close> for a call without result means that it returned.
\<close>

record env =
  mkdtemp_res :: "event list \<Rightarrow> exn + string"
  rmtree_res :: "event list \<Rightarrow> string \<Rightarrow> exn option"
  archive_res :: "event list \<Rightarrow> string \<Rightarrow> string \<Rightarrow> string \<Rightarrow> string \<Rightarrow> string option \<Rightarrow> exn option"
  get_submodules_res :: "event list \<Rightarrow> string \<Rightarrow> exn + (string \<times> string) list"
  list_tree_res :: "event list \<Rightarrow> string \<Rightarrow> exn + (string \<times> string \<times> string \<times> string) list"
  has_submodules_res :: "event list \<Rightarrow> exn + bool"
  update_submodules_res :: "event list \<Rightarrow> exn option"
  catenate_res :: "event list \<Rightarrow> string \<Rightarrow> string \<Rightarrow> exn option"
  system_res :: "event list \<Rightarrow> string \<Rightarrow> exn + int"
  pipe_copy_res :: "event list \<Rightarrow> pipeline \<Rightarrow> string \<Rightarrow> string \<Rightarrow> exn + int"
  chdir_res :: "event list \<Rightarrow> string \<Rightarrow> exn option"
  subprocess_call_res :: "event list \<Rightarrow> string list \<Rightarrow> exn + int"
  pipes_quote :: "string \<Rightarrow> string"

text \<open>
  The state of the process: its working directory (an absolute path, as
  \<open>os.getcwd()\<close> returns it), the staging directories that exist, and the
  trace.
\<close>

record world =
  cwd :: string
  dirs :: "string set"
  trace :: "event list"

type_synonym 'a prog = "world \<Rightarrow> (exn + 'a) \<times> world"

definition ret :: "'a \<Rightarrow> 'a prog" where
  "ret x w = (Inr x, w)"

definition raise :: "exn \<Rightarrow> 'a prog" where
  "raise e w = (Inl e, w)"

definition bnd :: "'a prog \<Rightarrow> ('a \<Rightarrow> 'b prog) \<Rightarrow> 'b prog" where
  \<comment> \<open>sequencing: an exception of the first statement skips the rest\<close>
  "bnd m f w = (case m w of (Inl e, w') \<Rightarrow> (Inl e, w') | (Inr x, w') \<Rightarrow> f x w')"

definition thn :: "unit prog \<Rightarrow> 'b prog \<Rightarrow> 'b prog" where
  "thn m n = bnd m (\<lambda>_. n)"

definition try_finally :: "'a prog \<Rightarrow> unit prog \<Rightarrow> 'a prog" where
  \<comment> \<open>\<open>try: body finally: fin\<close>: \<open>fin\<close> runs whatever \<open>body\<close> did; an exception
      of \<open>fin\<close> replaces the outcome of \<open>body\<close>\<close>
  "try_finally body fin w =
     (case body w of (r, w1) \<Rightarrow>
        (case fin w1 of (Inl e, w2) \<Rightarrow> (Inl e, w2) | (Inr _, w2) \<Rightarrow> (r, w2)))"

definition emit :: "event \<Rightarrow> world \<Rightarrow> world" where
  "emit ev w = w\<lparr>trace := trace w @ [ev]\<rparr>"

definition call_unit :: "event \<Rightarrow> (event list \<Rightarrow> exn option) \<Rightarrow> unit prog" where
  \<comment> \<open>an external call without result\<close>
  "call_unit ev res w =
     (case res (trace w) of None \<Rightarrow> (Inr (), emit ev w) | Some e \<Rightarrow> (Inl e, emit ev w))"

definition call_val :: "event \<Rightarrow> (event list \<Rightarrow> exn + 'a) \<Rightarrow> 'a prog" where
  \<comment> \<open>an external call with a result\<close>
  "call_val ev res w = (res (trace w), emit ev w)"

definition log_debug :: "string \<Rightarrow> unit prog" where
  "log_debug msg w = (Inr (), emit (LogDebug msg) w)"

definition log_info :: "string \<Rightarrow> unit prog" where
  "log_info msg w = (Inr (), emit (LogInfo msg) w)"

definition log_err :: "string \<Rightarrow> unit prog" where
  "log_err msg w = (Inr (), emit (LogErr msg) w)"

definition print_stderr :: "string \<Rightarrow> unit prog" where
  "print_stderr msg w = (Inr (), emit (PrintStderr msg) w)"

definition tempfile_mkdtemp :: "env \<Rightarrow> string prog" where
  \<comment> \<open>\<open>tempfile.mkdtemp()\<close>: creates a directory and returns its path\<close>
  "tempfile_mkdtemp env w =
     (case mkdtemp_res env (trace w) of
        Inl e \<Rightarrow> (Inl e, emit Mkdtemp w)
      | Inr d \<Rightarrow> (Inr d, emit Mkdtemp (w\<lparr>dirs := insert d (dirs w)\<rparr>)))"

definition shutil_rmtree :: "env \<Rightarrow> string \<Rightarrow> unit prog" where
  \<comment> \<open>\<open>shutil.rmtree(d)\<close> (with \<open>ignore_errors=False\<close>): the removal may fail,
      as the environment decides, and then raises and leaves \<open>d\<close> in place;
      otherwise it removes \<open>d\<close> and what is below it; \<open>OSError\<close> (\<open>ENOENT\<close>)
      when \<open>d\<close> does not exist\<close>
  "shutil_rmtree env d w =
     (case rmtree_res env (trace w) d of
        Some e \<Rightarrow> (Inl e, emit (Rmtree d) w)
      | None \<Rightarrow>
          (if d \<in> dirs w
           then (Inr (), emit (Rmtree d)
                   (w\<lparr>dirs := Set.filter (\<lambda>p. \<not> (p = d \<or> startswith p (d @ ''/'')))
                                (dirs w)\<rparr>))
           else (Inl (OSError 2 ''No such file or directory''), emit (Rmtree d) w)))"

definition os_chdir :: "env \<Rightarrow> string \<Rightarrow> unit prog" where
  \<comment> \<open>\<open>os.chdir(path)\<close>: a relative path is taken from the working directory\<close>
  "os_chdir env path w =
     (case chdir_res env (trace w) (os_path_join (cwd w) path) of
        Some e \<Rightarrow> (Inl e, emit (Chdir path) w)
      | None \<Rightarrow> (Inr (), emit (Chdir path) (w\<lparr>cwd := os_path_join (cwd w) path\<rparr>)))"

definition repo_archive ::
  "env \<Rightarrow> string \<Rightarrow> string \<Rightarrow> string \<Rightarrow> string \<Rightarrow> string option \<Rightarrow> unit prog" where
  "repo_archive env format prefix output treeish dir =
     call_unit (RepoArchive format prefix output treeish dir)
       (\<lambda>tr. archive_res env tr format prefix output treeish dir)"

definition repo_get_submodules :: "env \<Rightarrow> string \<Rightarrow> (string \<times> string) list prog" where
  "repo_get_submodules env treeish =
     call_val (RepoGetSubmodules treeish) (\<lambda>tr. get_submodules_res env tr treeish)"

definition repo_list_tree ::
  "env \<Rightarrow> string \<Rightarrow> (string \<times> string \<times> string \<times> string) list prog" where
  "repo_list_tree env treeish =
     call_val (RepoListTree treeish) (\<lambda>tr. list_tree_res env tr treeish)"

definition repo_has_submodules :: "env \<Rightarrow> bool prog" where
  "repo_has_submodules env = call_val RepoHasSubmodules (has_submodules_res env)"

definition repo_update_submodules :: "env \<Rightarrow> unit prog" where
  "repo_update_submodules env = call_unit RepoUpdateSubmodules (update_submodules_res env)"

definition CatenateTarArchive :: "env \<Rightarrow> string \<Rightarrow> string \<Rightarrow> unit prog" where
  \<comment> \<open>\<open>CatenateTarArchive(archive)(target)\<close>\<close>
  "CatenateTarArchive env archive target =
     call_unit (CatenateTar archive target) (\<lambda>tr. catenate_res env tr archive target)"

definition os_system :: "env \<Rightarrow> string \<Rightarrow> int prog" where
  "os_system env cmdline = call_val (OsSystem cmdline) (\<lambda>tr. system_res env tr cmdline)"

definition pipe_copy :: "env \<Rightarrow> pipeline \<Rightarrow> string \<Rightarrow> string \<Rightarrow> int prog" where
  \<comment> \<open>\<open>pipe.copy(infile, outfile)\<close> of a \<open>pipes.Template\<close>\<close>
  "pipe_copy env pipe infile outfile =
     call_val (PipeCopy pipe infile outfile) (\<lambda>tr. pipe_copy_res env tr pipe infile outfile)"

definition subprocess_call :: "env \<Rightarrow> string list \<Rightarrow> int prog" where
  "subprocess_call env argv = call_val (SubprocessCall argv) (\<lambda>tr. subprocess_call_res env tr argv)"

section \<open>The archive assembler (\<open>gbp/scripts/common/buildpackage.py\<close>)\<close>

text \<open>The format strings of the module, each applied to its arguments.\<close>

definition processing_msg :: "string \<Rightarrow> string \<Rightarrow> string" where
  \<comment> \<open>\<open>"Processing submodule %s (%s)" % (subdir, commit[0:8])\<close>\<close>
  "processing_msg subdir commit =
     ''Processing submodule '' @ subdir @ '' ('' @ take 8 commit @ '')''"

definition creating_error :: "string \<Rightarrow> int \<Rightarrow> string" where
  \<comment> \<open>\<open>"Error creating %s: %d" % (output, ret)\<close>\<close>
  "creating_error output r = ''Error creating '' @ output @ '': '' @ fmt_d r"

definition compress_cmd :: "string \<Rightarrow> string \<Rightarrow> string \<Rightarrow> string \<Rightarrow> string" where
  \<comment> \<open>\<open>"%s -%s %s %s" % (comp_type, comp_level, comp_opts, tarfile)\<close>\<close>
  "compress_cmd comp_type comp_level comp_opts tarfile =
     comp_type @ '' -'' @ comp_level @ '' '' @ comp_opts @ '' '' @ tarfile"

definition archive_cmd :: "string \<Rightarrow> string \<Rightarrow> string" where
  \<comment> \<open>\<open>"git archive --format=tar --prefix=%s %s" % (prefix, treeish)\<close>\<close>
  "archive_cmd prefix treeish = ''git archive --format=tar --prefix='' @ prefix @ '' '' @ treeish"

definition extract_cmd :: "string \<Rightarrow> string" where
  \<comment> \<open>\<open>'tar -C %s -xf -' % quoted_output_dir\<close>\<close>
  "extract_cmd quoted = ''tar -C '' @ quoted @ '' -xf -''"

definition dumping_error :: "string \<Rightarrow> string \<Rightarrow> string" where
  \<comment> \<open>\<open>"Error dumping tree to %s: %s" % (output_dir, what)\<close>\<close>
  "dumping_error output_dir what = ''Error dumping tree to '' @ output_dir @ '': '' @ what"

fun archive_submodules ::
  "env \<Rightarrow> string \<Rightarrow> string \<Rightarrow> string \<Rightarrow> (string \<times> string) list \<Rightarrow> unit prog" where
  \<comment> \<open>the \<open>for (subdir, commit) in ...\<close> loop of \<open>git_archive_submodules\<close>\<close>
  "archive_submodules env prefix tarfile submodule_tarfile [] = ret ()"
| "archive_submodules env prefix tarfile submodule_tarfile ((subdir, commit) # rest) =
     thn (log_debug (processing_msg subdir commit))
    (thn (repo_archive env ''tar'' (submodule_prefix prefix subdir) submodule_tarfile commit
            (Some subdir))
    (thn (CatenateTarArchive env tarfile submodule_tarfile)
         (archive_submodules env prefix tarfile submodule_tarfile rest)))"

definition git_archive_submodules_try ::
  "env \<Rightarrow> string \<Rightarrow> string \<Rightarrow> string \<Rightarrow> string \<Rightarrow> string \<Rightarrow> string \<Rightarrow> string \<Rightarrow> string
     \<Rightarrow> unit prog" where
  \<comment> \<open>the body of the \<open>try\<close> statement of \<open>git_archive_submodules\<close>\<close>
  "git_archive_submodules_try env treeish output prefix tarfile submodule_tarfile
       comp_type comp_level comp_opts =
     thn (repo_archive env ''tar'' prefix tarfile treeish None)
    (bnd (repo_get_submodules env treeish) (\<lambda>subs.
     thn (archive_submodules env prefix tarfile submodule_tarfile subs)
    (bnd (os_system env (compress_cmd comp_type comp_level comp_opts tarfile))
       (\<lambda>r. if r \<noteq> 0 then raise (GbpError (creating_error output r)) else ret ()))))"

definition git_archive_submodules ::
  "env \<Rightarrow> string \<Rightarrow> string \<Rightarrow> string \<Rightarrow> string \<Rightarrow> string \<Rightarrow> string \<Rightarrow> unit prog" where
  "git_archive_submodules env treeish output prefix comp_type comp_level comp_opts =
     (let prefix = sanitize_prefix prefix;
          tarfile = rsplit1 (CHR ''.'') output ! 0
      in bnd (tempfile_mkdtemp env) (\<lambda>tempdir.
           let submodule_tarfile = os_path_join tempdir ''submodule.tar''
           in try_finally
                (git_archive_submodules_try env treeish output prefix tarfile submodule_tarfile
                   comp_type comp_level comp_opts)
                (shutil_rmtree env tempdir)))"



section \<open>The tree exporter (\<open>gbp/scripts/common/buildpackage.py\<close>)\<close>

definition submodule_pipe :: "env \<Rightarrow> string \<Rightarrow> string \<Rightarrow> string \<Rightarrow> string \<Rightarrow> pipeline" where
  \<comment> \<open>the template built for one submodule in \<open>dump_tree\<close>\<close>
  "submodule_pipe env prefix output_dir subdir commit =
     [(archive_cmd (submodule_prefix prefix subdir) commit, ''.-''),
      (extract_cmd (pipes_quote env output_dir), ''-.'')]"

fun dump_submodules ::
  "env \<Rightarrow> string \<Rightarrow> string \<Rightarrow> string \<Rightarrow> (string \<times> string) list \<Rightarrow> unit prog" where
  \<comment> \<open>the \<open>for (subdir, commit) in ...\<close> loop of \<open>dump_tree\<close>\<close>
  "dump_submodules env prefix output_dir top0 [] = ret ()"
| "dump_submodules env prefix output_dir top0 ((subdir, commit) # rest) =
     thn (log_info (processing_msg subdir commit))
    (thn (os_chdir env subdir)
    (bnd (pipe_copy env (submodule_pipe env prefix output_dir subdir commit) [] [])
       (\<lambda>r. thn (os_chdir env top0)
              (if r \<noteq> 0
               then raise (GbpError (''Error in dump_tree archive pipe in submodule '' @ subdir))
               else dump_submodules env prefix output_dir top0 rest))))"

definition dump_tree_pipe :: "env \<Rightarrow> string \<Rightarrow> string \<Rightarrow> string \<Rightarrow> string list \<Rightarrow> pipeline" where
  \<comment> \<open>the template built for the tree itself in \<open>dump_tree\<close>\<close>
  "dump_tree_pipe env prefix treeish output_dir paths =
     [(archive_cmd prefix treeish @ '' -- '' @ join '' '' paths, ''.-''),
      (extract_cmd (pipes_quote env output_dir), ''-.'')]"

definition dump_tree_paths :: "env \<Rightarrow> string \<Rightarrow> bool \<Rightarrow> string list prog" where
  \<comment> \<open>the path list, built before the \<open>try\<close> statement\<close>
  "dump_tree_paths env treeish recursive =
     (if recursive then ret []
      else bnd (repo_list_tree env treeish) (\<lambda>entries.
             ret (map (\<lambda>(_, typ, _, nam). [CHR 0x27] @ nam @ [CHR 0x27])
                    (filter (\<lambda>(_, typ, _, nam). typ = ''blob'') entries))))"

definition dump_tree_try ::
  "env \<Rightarrow> pipeline \<Rightarrow> string \<Rightarrow> string \<Rightarrow> string \<Rightarrow> string \<Rightarrow> bool \<Rightarrow> bool \<Rightarrow> unit prog" where
  \<comment> \<open>the body of the \<open>try\<close> statement\<close>
  "dump_tree_try env pipe prefix output_dir top0 treeish with_submodules recursive =
     bnd (pipe_copy env pipe [] [])
       (\<lambda>r. if r \<noteq> 0 then raise (GbpError ''Error in dump_tree archive pipe'')
            else if recursive \<and> with_submodules
            then thn (bnd (repo_has_submodules env)
                        (\<lambda>h. if h then repo_update_submodules env else ret ()))
                     (bnd (repo_get_submodules env treeish)
                        (dump_submodules env prefix output_dir top0))
            else ret ())"

definition dump_tree_except :: "string \<Rightarrow> exn \<Rightarrow> bool prog" where
  \<comment> \<open>the three \<open>except\<close> clauses, tried in order; an exception that none of
      them matches goes on\<close>
  "dump_tree_except output_dir e =
     (case e of
        OSError n s \<Rightarrow>
          thn (log_err (dumping_error output_dir (fmt_d n))) (ret False)
      | GbpError m \<Rightarrow> thn (log_err m) (ret False)
      | BaseExc m \<Rightarrow> raise (BaseExc m)
      | _ \<Rightarrow>
          thn (log_err (dumping_error output_dir (exn_str e))) (ret False))"

definition dump_tree :: "env \<Rightarrow> string \<Rightarrow> string \<Rightarrow> bool \<Rightarrow> bool \<Rightarrow> bool prog" where
  "dump_tree env export_dir treeish with_submodules recursive =
     (let output_dir = os_path_dirname export_dir;
          prefix = sanitize_prefix (os_path_basename export_dir)
      in bnd (dump_tree_paths env treeish recursive) (\<lambda>paths.
           let pipe = dump_tree_pipe env prefix treeish output_dir paths
           in (\<lambda>w. let top0 = cwd w \<comment> \<open>\<open>top = os.path.abspath(os.path.curdir)\<close>\<close>
                 in try_finally
                      (\<lambda>w1. case dump_tree_try env pipe prefix output_dir top0 treeish
                                   with_submodules recursive w1 of
                              (Inl e, w2) \<Rightarrow> dump_tree_except output_dir e w2
                            | (Inr _, w2) \<Rightarrow> (Inr True, w2))
                      (os_chdir env top0) w)))"

section \<open>The command invoker (\<open>git_buildpackage/__init__.py\<close>)\<close>

record command =
  cmd :: string
  args :: "string list"
  run_error :: string
  verbose :: bool

definition Command :: "string \<Rightarrow> string list \<Rightarrow> command" where
  \<comment> \<open>\<open>Command.__init__\<close>; \<open>verbose\<close> is the class attribute\<close>
  "Command c xs =
     \<lparr>cmd = c, args = xs,
      run_error = ''Couldn'' @ [CHR 0x27] @ ''t run '' @ [CHR 0x27] @ c @ '' '' @ join '' '' xs
                    @ [CHR 0x27],
      verbose = False\<rparr>"

definition command_run :: "env \<Rightarrow> command \<Rightarrow> string list \<Rightarrow> int prog" where
  \<comment> \<open>\<open>Command.__run\<close>\<close>
  "command_run env self xs =
     bnd (\<lambda>w. let w0 = (if verbose self then emit (PrintVerbose (cmd self) (args self) xs) w
                         else w)
              in case subprocess_call env ([cmd self] @ args self @ xs) w0 of
                   (Inr retcode, w1) \<Rightarrow>
                     (if retcode < 0
                      then thn (print_stderr (cmd self @ '' was terminated by signal ''
                                  @ fmt_d (- retcode))) (ret retcode) w1
                      else if retcode > 0
                      then thn (print_stderr (cmd self @ '' returned '' @ fmt_d retcode))
                             (ret retcode) w1
                      else (Inr retcode, w1))
                 | (Inl (OSError n s), w1) \<Rightarrow>
                     thn (print_stderr (''Execution failed: '' @ s)) (ret 1) w1
                 | (Inl e, w1) \<Rightarrow> (Inl e, w1))
       (\<lambda>retcode. thn (if retcode \<noteq> 0 then print_stderr (run_error self) else ret ())
                    (ret retcode))"

definition command_call :: "env \<Rightarrow> command \<Rightarrow> string list \<Rightarrow> unit prog" where
  \<comment> \<open>\<open>Command.__call__\<close>\<close>
  "command_call env self xs =
     bnd (command_run env self xs)
       (\<lambda>retcode. if retcode \<noteq> 0 then raise CommandExecFailed else ret ())"

section \<open>Notions used to state the properties\<close>

definition stripped :: "string \<Rightarrow> bool" where
  \<comment> \<open>a string that neither starts nor ends with a separator\<close>
  "stripped s = (s = [] \<or> (hd s \<noteq> CHR ''/'' \<and> last s \<noteq> CHR ''/''))"

definition submodule_steps :: "string \<Rightarrow> string \<Rightarrow> string \<Rightarrow> string \<times> string \<Rightarrow> event list" where
  \<comment> \<open>what one round of the loop of \<open>git_archive_submodules\<close> is expected to do
      for the submodule record \<open>sc\<close>, with the prefix written out\<close>
  "submodule_steps prefix tarfile submodule_tarfile sc =
     [LogDebug (processing_msg (fst sc) (snd sc)),
      RepoArchive ''tar''
        (prefix @ (if take 2 (fst sc) = ''./'' then drop 2 (fst sc) else fst sc) @ ''/'')
        submodule_tarfile (snd sc) (Some (fst sc)),
      CatenateTar tarfile submodule_tarfile]"

definition is_submodule_archive :: "event \<Rightarrow> bool" where
  \<comment> \<open>an archive call made for a submodule (one that names a working directory)\<close>
  "is_submodule_archive ev = (case ev of RepoArchive f p out t (Some d) \<Rightarrow> True | _ \<Rightarrow> False)"

definition is_catenate :: "event \<Rightarrow> bool" where
  "is_catenate ev = (case ev of CatenateTar a b \<Rightarrow> True | _ \<Rightarrow> False)"

definition new_events :: "world \<Rightarrow> world \<Rightarrow> event list" where
  \<comment> \<open>the calls made between two states of the process\<close>
  "new_events w w' = drop (length (trace w)) (trace w')"

definition only_pipes :: "pipeline set \<Rightarrow> event list \<Rightarrow> bool" where
  \<comment> \<open>every pipeline run among the events is one of \<open>A\<close>\<close>
  "only_pipes A evs =
     (\<forall>ev\<in>set evs. case ev of PipeCopy pipe i out \<Rightarrow> pipe \<in> A | _ \<Rightarrow> True)"

text \<open>
  A concrete environment in which every call succeeds and a concrete initial
  state, for instances of the theorems.
\<close>

definition env0 :: env where
  "env0 =
     \<lparr>mkdtemp_res = (\<lambda>tr. Inr ''/tmp/tmpA''),
      rmtree_res = (\<lambda>tr d. None),
      archive_res = (\<lambda>tr f p out t c. None),
      get_submodules_res =
        (\<lambda>tr t. Inr [(''./sub1'', ''0123456789abcdef''), (''lib/sub2'', ''fedcba9876543210'')]),
      list_tree_res =
        (\<lambda>tr t. Inr [(''100644'', ''blob'', ''aaaa'', ''README''),
                     (''040000'', ''tree'', ''bbbb'', ''src'')]),
      has_submodules_res = (\<lambda>tr. Inr True),
      update_submodules_res = (\<lambda>tr. None),
      catenate_res = (\<lambda>tr a b. None),
      system_res = (\<lambda>tr c. Inr 0),
      pipe_copy_res = (\<lambda>tr p i out. Inr 0),
      chdir_res = (\<lambda>tr p. None),
      subprocess_call_res = (\<lambda>tr argv. Inr 0),
      pipes_quote = (\<lambda>s. s)\<rparr>"

definition world0 :: world where
  "world0 = \<lparr>cwd = ''/src'', dirs = {}, trace = []\<rparr>"

text \<open>
  Variants of the environment: the backend reports a submodule path with a
  trailing separator; the compressor returns a nonzero status; the pipeline of
  the first submodule breaks after the working directory has been changed;
  \<open>list_tree\<close> raises; the user interrupts the first pipeline.
\<close>

definition env_trailing_separator :: env where
  \<comment> \<open>the backend reports a submodule path that ends with a separator\<close>
  "env_trailing_separator =
     env0\<lparr>get_submodules_res := (\<lambda>tr t. Inr [(''sub/'', ''0123456789abcdef'')])\<rparr>"

definition env_compress_fails :: env where
  "env_compress_fails = env0\<lparr>system_res := (\<lambda>tr c. Inr 256)\<rparr>"

definition env_submodule_fails :: env where
  "env_submodule_fails =
     env0\<lparr>pipe_copy_res :=
            (\<lambda>tr p i out. if 4 < length tr then Inl (OSError 32 ''Broken pipe'') else Inr 0)\<rparr>"

definition env_list_tree_fails :: env where
  "env_list_tree_fails =
     env0\<lparr>list_tree_res := (\<lambda>tr t. Inl (GbpError ''git ls-tree failed''))\<rparr>"

definition env_interrupted :: env where
  "env_interrupted =
     env0\<lparr>pipe_copy_res := (\<lambda>tr p i out. Inl (BaseExc ''KeyboardInterrupt''))\<rparr>"

section \<open>Basic facts about the state model\<close>

lemma emit_simps:
  "cwd (emit ev w) = cwd w" "dirs (emit ev w) = dirs w" "trace (emit ev w) = trace w @ [ev]"
  by (simp_all add: emit_def)

lemma thn_call_unit:
  "thn (call_unit ev res) n w =
     (case res (trace w) of None \<Rightarrow> n (emit ev w) | Some e \<Rightarrow> (Inl e, emit ev w))"
  by (simp add: thn_def bnd_def call_unit_def split: option.splits)

lemma bnd_call_val:
  "bnd (call_val ev res) f w =
     (case res (trace w) of Inl e \<Rightarrow> (Inl e, emit ev w) | Inr x \<Rightarrow> f x (emit ev w))"
  by (simp add: bnd_def call_val_def split: sum.splits)

lemma thn_log:
  "thn (log_debug m) n w = n (emit (LogDebug m) w)"
  "thn (log_info m) n w = n (emit (LogInfo m) w)"
  "thn (log_err m) n w = n (emit (LogErr m) w)"
  "thn (print_stderr m) n w = n (emit (PrintStderr m) w)"
  by (simp_all add: thn_def bnd_def log_debug_def log_info_def log_err_def print_stderr_def)

lemma submodule_prefix_eq:
  "submodule_prefix P sd = P @ (if take 2 sd = ''./'' then drop 2 sd else sd) @ ''/''"
  by (simp add: submodule_prefix_def tarpath_def startswith_def numeral_2_eq_2)

section \<open>Properties of the prefix normalisation\<close>

lemma dropWhile_hd_id: "ys \<noteq> [] \<Longrightarrow> \<not> P (hd ys) \<Longrightarrow> dropWhile P ys = ys"
  by (cases ys) simp_all

lemma takeWhile_dropWhile_Nil: "takeWhile P (dropWhile P xs) = []"
  by (induction xs) auto

lemma rstrip_keeps_hd:
  assumes "t \<noteq> []" "hd t \<noteq> CHR ''/''"
  shows "rstrip ''/'' t \<noteq> [] \<and> hd (rstrip ''/'' t) = hd t"
proof -
  from assms obtain x t' where t: "t = x # t'" and x: "x \<noteq> CHR ''/''"
    by (cases t) auto
  have "dropWhile (\<lambda>c. c \<in> set ''/'') (rev t' @ [x]) =
        dropWhile (\<lambda>c. c \<in> set ''/'') (rev t') @ [x]"
    using x by (simp add: dropWhile_append)
  then show ?thesis by (simp add: rstrip_def t)
qed

lemma rstrip_last: "rstrip ''/'' t = [] \<or> last (rstrip ''/'' t) \<noteq> CHR ''/''"
proof (cases "dropWhile (\<lambda>c. c \<in> set ''/'') (rev t)")
  case Nil
  then show ?thesis by (simp add: rstrip_def)
next
  case (Cons y ys)
  then have "\<not> (y \<in> set ''/'')"
    using hd_dropWhile[of "\<lambda>c. c \<in> set ''/''" "rev t"] by auto
  with Cons show ?thesis by (simp add: rstrip_def)
qed

lemma stripped_strip: "stripped (strip ''/'' p)"
proof (cases "lstrip ''/'' p")
  case Nil
  then show ?thesis by (simp add: stripped_def strip_def rstrip_def)
next
  case (Cons y ys)
  then have "hd (lstrip ''/'' p) \<noteq> CHR ''/''"
    using hd_dropWhile[of "\<lambda>c. c \<in> set ''/''" p] by (auto simp: lstrip_def)
  with Cons show ?thesis
    using rstrip_keeps_hd[of "lstrip ''/'' p"] rstrip_last[of "lstrip ''/'' p"]
    by (auto simp: stripped_def strip_def)
qed

lemma strip_stripped_sep: "stripped s \<Longrightarrow> strip ''/'' (s @ ''/'') = s"
proof (cases s)
  case Nil
  then show ?thesis by (simp add: strip_def lstrip_def rstrip_def)
next
  case (Cons x xs)
  assume "stripped s"
  with Cons have hx: "x \<noteq> CHR ''/''" and hl: "last (x # xs) \<noteq> CHR ''/''"
    by (auto simp: stripped_def)
  have "hd (rev (x # xs)) \<noteq> CHR ''/''"
    using hl hd_rev[of "x # xs"] by simp
  moreover have "rev (x # xs) \<noteq> []" by simp
  ultimately have "dropWhile (\<lambda>c. c \<in> set ''/'') (rev (x # xs)) = rev (x # xs)"
    using dropWhile_hd_id[of "rev (x # xs)" "\<lambda>c. c \<in> set ''/''"] by simp
  then show ?thesis using hx Cons by (simp add: strip_def lstrip_def rstrip_def)
qed

lemma trailing_seps_strip: "trailing_seps (strip ''/'' p @ ''/'') = 1"
  by (simp add: trailing_seps_def strip_def rstrip_def takeWhile_dropWhile_Nil)

lemma leading_seps_stripped:
  "stripped s \<Longrightarrow> leading_seps (s @ ''/'') = (if s = [] then 1 else 0)"
  by (cases s) (auto simp: stripped_def leading_seps_def)

lemma dropWhile_Nil_filter: "(dropWhile P xs = []) = (filter (\<lambda>x. \<not> P x) xs = [])"
  by (induction xs) simp_all

lemma strip_Nil_lstrip: "(strip ''/'' p = []) = (lstrip ''/'' p = [])"
proof (cases "lstrip ''/'' p")
  case Nil
  then show ?thesis by (simp add: strip_def rstrip_def)
next
  case (Cons y ys)
  then have "hd (lstrip ''/'' p) \<noteq> CHR ''/''"
    using hd_dropWhile[of "\<lambda>c. c \<in> set ''/''" p] by (auto simp: lstrip_def)
  with Cons show ?thesis
    using rstrip_keeps_hd[of "lstrip ''/'' p"] by (simp add: strip_def)
qed

lemma strip_Nil_iff: "(strip ''/'' p = []) = (filter (\<lambda>c. c \<noteq> CHR ''/'') p = [])"
  using dropWhile_Nil_filter[of "\<lambda>c. c \<in> set ''/''" p]
  by (simp add: strip_Nil_lstrip lstrip_def)

text \<open>
  C2, as the code has it.  \<open>sanitize_prefix\<close> is a total function; each result
  ends with exactly one separator; the result starts with a separator exactly
  when it is the single separator \<open>/\<close>, which is the result for the empty
  string and for every string that consists of separators only, and it has no
  leading separator otherwise.  The three examples of the docstring hold.
\<close>

theorem sanitize_prefix_shape:
  "trailing_seps (sanitize_prefix p) = 1
   \<and> leading_seps (sanitize_prefix p) = (if sanitize_prefix p = ''/'' then 1 else 0)
   \<and> (sanitize_prefix p = ''/'') = (filter (\<lambda>c. c \<noteq> CHR ''/'') p = [])
   \<and> sanitize_prefix '''' = ''/''
   \<and> sanitize_prefix ''foo/'' = ''foo/''
   \<and> sanitize_prefix ''/foo/bar'' = ''foo/bar/''"
proof -
  have t: "trailing_seps (sanitize_prefix p) = 1"
    using trailing_seps_strip[of p]
    by (simp add: sanitize_prefix_def trailing_seps_def)
  have e: "(sanitize_prefix p = ''/'') = (strip ''/'' p = [])"
    by (auto simp: sanitize_prefix_def strip_def rstrip_def lstrip_def)
  have l: "leading_seps (sanitize_prefix p) = (if sanitize_prefix p = ''/'' then 1 else 0)"
  proof (cases "p = []")
    case True
    then show ?thesis by (simp add: sanitize_prefix_def leading_seps_def)
  next
    case False
    then show ?thesis
      using leading_seps_stripped[OF stripped_strip[of p]]
      by (simp add: sanitize_prefix_def)
  qed
  have x: "sanitize_prefix '''' = ''/'' \<and> sanitize_prefix ''foo/'' = ''foo/''
           \<and> sanitize_prefix ''/foo/bar'' = ''foo/bar/''"
    by (simp add: sanitize_prefix_def strip_def rstrip_def lstrip_def)
  from t l e x strip_Nil_iff[of p] show ?thesis by blast
qed

text \<open>
  C2 as it is worded fails at the empty string: the result is the single
  separator, which is a leading separator.
\<close>

theorem sanitize_prefix_leading_counterexample:
  "sanitize_prefix '''' = ''/'' \<and> leading_seps (sanitize_prefix '''') = 1"
  by (simp add: sanitize_prefix_def leading_seps_def)

text \<open>
  C9.  \<open>sanitize_prefix\<close> is idempotent: applying it to one of its results gives
  that result again.
\<close>

theorem sanitize_prefix_idempotent:
  "sanitize_prefix (sanitize_prefix p) = sanitize_prefix p"
  using strip_stripped_sep[OF stripped_strip[of p]]
  by (simp add: sanitize_prefix_def strip_def lstrip_def rstrip_def)

section \<open>Properties of the command invoker\<close>

lemma command_run_result:
  "fst (command_run env self xs w) =
     (case subprocess_call_res env
             (trace w @ (if verbose self then [PrintVerbose (cmd self) (args self) xs] else []))
             ([cmd self] @ args self @ xs) of
        Inr retcode \<Rightarrow> Inr retcode
      | Inl (OSError n s) \<Rightarrow> Inr 1
      | Inl e \<Rightarrow> Inl e)"
proof (cases "verbose self")
  case True
  then show ?thesis
    by (simp add: command_run_def bnd_def thn_def print_stderr_def subprocess_call_def
          call_val_def emit_simps ret_def Let_def split: sum.splits exn.splits)
next
  case False
  then show ?thesis
    by (simp add: command_run_def bnd_def thn_def print_stderr_def subprocess_call_def
          call_val_def emit_simps ret_def Let_def split: sum.splits exn.splits)
qed

text \<open>
  C7.  The outcome of invoking a \<open>Command\<close> is fixed by what
  \<open>subprocess.call\<close> does: the invocation returns normally exactly when the
  child exits with code 0; a positive code, a negative code (termination by a
  signal) and an \<open>OSError\<close> on starting the process all give the same
  exception value \<open>CommandExecFailed\<close>, which has no payload.  (Any other
  exception out of \<open>subprocess.call\<close> is not handled and goes on unchanged.)
\<close>

theorem command_call_outcome:
  "fst (command_call env self xs w) =
     (case subprocess_call_res env
             (trace w @ (if verbose self then [PrintVerbose (cmd self) (args self) xs] else []))
             ([cmd self] @ args self @ xs) of
        Inr retcode \<Rightarrow> if retcode = 0 then Inr () else Inl CommandExecFailed
      | Inl (OSError n s) \<Rightarrow> Inl CommandExecFailed
      | Inl e \<Rightarrow> Inl e)
   \<and> (fst (command_call env self xs w) = Inr ()) =
       (subprocess_call_res env
          (trace w @ (if verbose self then [PrintVerbose (cmd self) (args self) xs] else []))
          ([cmd self] @ args self @ xs) = Inr 0)"
proof -
  have "fst (command_call env self xs w) =
          (case fst (command_run env self xs w) of
             Inl e \<Rightarrow> Inl e
           | Inr retcode \<Rightarrow> if retcode = 0 then Inr () else Inl CommandExecFailed)"
    by (simp add: command_call_def bnd_def ret_def raise_def split: prod.splits sum.splits)
  then show ?thesis
    by (simp add: command_run_result split: sum.splits exn.splits)
qed

section \<open>Properties of the archive assembler\<close>

lemma archive_submodules_Cons:
  "archive_submodules env P T S (sc # rest) w =
     (let w1 = emit (LogDebug (processing_msg (fst sc) (snd sc))) w;
          w2 = emit (RepoArchive ''tar'' (submodule_prefix P (fst sc)) S (snd sc) (Some (fst sc))) w1;
          w3 = emit (CatenateTar T S) w2
      in case archive_res env (trace w1) ''tar'' (submodule_prefix P (fst sc)) S (snd sc) (Some (fst sc)) of
           Some e \<Rightarrow> (Inl e, w2)
         | None \<Rightarrow> (case catenate_res env (trace w2) T S of
                      Some e \<Rightarrow> (Inl e, w3)
                    | None \<Rightarrow> archive_submodules env P T S rest w3))"
  by (cases sc)
     (simp add: thn_log thn_call_unit repo_archive_def CatenateTarArchive_def Let_def
        split: option.splits)

lemma archive_submodules_frame:
  "dirs (snd (archive_submodules env P T S subs w)) = dirs w \<and>
   cwd (snd (archive_submodules env P T S subs w)) = cwd w"
proof (induction subs arbitrary: w)
  case Nil show ?case by (simp add: ret_def)
next
  case (Cons sc rest)
  show ?case
    by (simp add: archive_submodules_Cons Let_def Cons.IH emit_simps split: option.splits)
qed

lemma archive_submodules_ok:
  "fst (archive_submodules env P T S subs w) = Inr () \<Longrightarrow>
   trace (snd (archive_submodules env P T S subs w)) =
     trace w @ concat (map (submodule_steps P T S) subs)"
proof (induction subs arbitrary: w)
  case Nil show ?case by (simp add: ret_def)
next
  case (Cons sc rest)
  let ?w1 = "emit (LogDebug (processing_msg (fst sc) (snd sc))) w"
  let ?w2 = "emit (RepoArchive ''tar'' (submodule_prefix P (fst sc)) S (snd sc) (Some (fst sc))) ?w1"
  let ?w3 = "emit (CatenateTar T S) ?w2"
  from Cons.prems have a: "archive_res env (trace ?w1) ''tar'' (submodule_prefix P (fst sc)) S (snd sc) (Some (fst sc)) = None"
    by (simp add: archive_submodules_Cons Let_def split: option.splits)
  from Cons.prems a have c: "catenate_res env (trace ?w2) T S = None"
    by (simp add: archive_submodules_Cons Let_def split: option.splits)
  have eq: "archive_submodules env P T S (sc # rest) w = archive_submodules env P T S rest ?w3"
    using a c by (simp add: archive_submodules_Cons Let_def)
  with Cons.prems have "fst (archive_submodules env P T S rest ?w3) = Inr ()" by simp
  from Cons.IH[OF this] show ?case
    by (simp add: eq emit_simps submodule_steps_def submodule_prefix_eq)
qed

lemma git_archive_submodules_try_steps:
  "git_archive_submodules_try env treeish output P T S ct cl co w =
     (let w1 = emit (RepoArchive ''tar'' P T treeish None) w;
          w2 = emit (RepoGetSubmodules treeish) w1
      in case archive_res env (trace w) ''tar'' P T treeish None of
           Some e \<Rightarrow> (Inl e, w1)
         | None \<Rightarrow>
            (case get_submodules_res env (trace w1) treeish of
               Inl e \<Rightarrow> (Inl e, w2)
             | Inr subs \<Rightarrow>
                (let w3 = snd (archive_submodules env P T S subs w2);
                     w4 = emit (OsSystem (compress_cmd ct cl co T)) w3
                 in case fst (archive_submodules env P T S subs w2) of
                      Inl e \<Rightarrow> (Inl e, w3)
                    | Inr u \<Rightarrow>
                       (case system_res env (trace w3) (compress_cmd ct cl co T) of
                          Inl e \<Rightarrow> (Inl e, w4)
                        | Inr r \<Rightarrow> (if r \<noteq> 0 then (Inl (GbpError (creating_error output r)), w4)
                                    else (Inr (), w4))))))"
  by (simp add: git_archive_submodules_try_def repo_archive_def thn_call_unit
        repo_get_submodules_def bnd_call_val os_system_def Let_def thn_def[of "archive_submodules _ _ _ _ _"]
        bnd_def[of "archive_submodules _ _ _ _ _"] ret_def raise_def
        split: option.splits sum.splits prod.splits)

lemma git_archive_submodules_try_frame:
  "dirs (snd (git_archive_submodules_try env treeish output P T S ct cl co w)) = dirs w"
  by (simp add: git_archive_submodules_try_steps Let_def emit_simps archive_submodules_frame
        split: option.splits sum.splits)

lemma git_archive_submodules_steps:
  "git_archive_submodules env treeish output prefix ct cl co w =
     (case mkdtemp_res env (trace w) of
        Inl e \<Rightarrow> (Inl e, emit Mkdtemp w)
      | Inr d \<Rightarrow>
          try_finally
            (git_archive_submodules_try env treeish output (sanitize_prefix prefix)
               (rsplit1 (CHR ''.'') output ! 0) (os_path_join d ''submodule.tar'') ct cl co)
            (shutil_rmtree env d)
            (emit Mkdtemp (w\<lparr>dirs := insert d (dirs w)\<rparr>)))"
  by (simp add: git_archive_submodules_def Let_def bnd_def tempfile_mkdtemp_def split: sum.splits)

lemma try_finally_rmtree:
  assumes "d \<in> dirs (snd (body w))"
  shows "try_finally body (shutil_rmtree env d) w =
           (case rmtree_res env (trace (snd (body w))) d of
              Some e \<Rightarrow> (Inl e, emit (Rmtree d) (snd (body w)))
            | None \<Rightarrow>
                (fst (body w),
                 emit (Rmtree d)
                   ((snd (body w))\<lparr>dirs := Set.filter (\<lambda>p. \<not> (p = d \<or> startswith p (d @ ''/'')))
                                             (dirs (snd (body w)))\<rparr>)))"
  using assms
  by (cases "body w") (simp add: try_finally_def shutil_rmtree_def split: option.splits)

lemma git_archive_submodules_cleanup:
  assumes m: "mkdtemp_res env (trace w) = Inr d"
  shows "git_archive_submodules env treeish output prefix ct cl co w =
           (let b = git_archive_submodules_try env treeish output (sanitize_prefix prefix)
                      (rsplit1 (CHR ''.'') output ! 0) (os_path_join d ''submodule.tar'') ct cl co
                      (emit Mkdtemp (w\<lparr>dirs := insert d (dirs w)\<rparr>))
            in case rmtree_res env (trace (snd b)) d of
                 Some e \<Rightarrow> (Inl e, emit (Rmtree d) (snd b))
               | None \<Rightarrow>
                   (fst b, emit (Rmtree d)
                      ((snd b)\<lparr>dirs := Set.filter (\<lambda>p. \<not> (p = d \<or> startswith p (d @ ''/'')))
                                          (dirs (snd b))\<rparr>)))"
proof -
  have "d \<in> dirs (snd (git_archive_submodules_try env treeish output (sanitize_prefix prefix)
                      (rsplit1 (CHR ''.'') output ! 0) (os_path_join d ''submodule.tar'') ct cl co
                      (emit Mkdtemp (w\<lparr>dirs := insert d (dirs w)\<rparr>))))"
    by (simp add: git_archive_submodules_try_frame emit_simps)
  from try_finally_rmtree[of d "git_archive_submodules_try env treeish output
        (sanitize_prefix prefix) (rsplit1 (CHR ''.'') output ! 0)
        (os_path_join d ''submodule.tar'') ct cl co"
        "emit Mkdtemp (w\<lparr>dirs := insert d (dirs w)\<rparr>)" env, OF this]
  show ?thesis
    by (simp add: git_archive_submodules_steps m Let_def)
qed

lemma git_archive_submodules_trace:
  assumes m: "mkdtemp_res env (trace w) = Inr d"
  shows "trace (snd (git_archive_submodules env treeish output prefix ct cl co w)) =
           trace (snd (git_archive_submodules_try env treeish output (sanitize_prefix prefix)
                         (rsplit1 (CHR ''.'') output ! 0) (os_path_join d ''submodule.tar'')
                         ct cl co (emit Mkdtemp (w\<lparr>dirs := insert d (dirs w)\<rparr>))))
           @ [Rmtree d]"
  by (simp add: git_archive_submodules_cleanup[OF m] Let_def emit_simps split: option.splits)

lemma git_archive_submodules_returns:
  assumes m: "mkdtemp_res env (trace w) = Inr d"
    and r: "fst (git_archive_submodules env treeish output prefix ct cl co w) = Inr ()"
  shows "fst (git_archive_submodules_try env treeish output (sanitize_prefix prefix)
                (rsplit1 (CHR ''.'') output ! 0) (os_path_join d ''submodule.tar'')
                ct cl co (emit Mkdtemp (w\<lparr>dirs := insert d (dirs w)\<rparr>))) = Inr ()"
  using r by (simp add: git_archive_submodules_cleanup[OF m] Let_def split: option.splits)

lemma git_archive_submodules_run:
  assumes m: "mkdtemp_res env (trace w) = Inr d"
    and rm: "\<forall>tr. rmtree_res env tr d = None"
  shows "git_archive_submodules env treeish output prefix ct cl co w =
           (let b = git_archive_submodules_try env treeish output (sanitize_prefix prefix)
                      (rsplit1 (CHR ''.'') output ! 0) (os_path_join d ''submodule.tar'') ct cl co
                      (emit Mkdtemp (w\<lparr>dirs := insert d (dirs w)\<rparr>))
            in (fst b, emit (Rmtree d)
                  ((snd b)\<lparr>dirs := Set.filter (\<lambda>p. \<not> (p = d \<or> startswith p (d @ ''/'')))
                                      (dirs (snd b))\<rparr>)))"
  using rm by (simp add: git_archive_submodules_cleanup[OF m] Let_def)

text \<open>
  C3.  Once \<open>mkdtemp\<close> has created the staging directory, the call ends, on
  every path, with \<open>shutil.rmtree\<close> on that directory: whatever the body of
  the \<open>try\<close> statement does (it returns, it raises the build error of a
  failed compression, or any exception comes out of the archive, concatenate
  or compress steps).  Provided \<open>shutil.rmtree\<close> itself does not fail, the
  directory does not exist after the call, no directory is left over, and the
  outcome of the call is the outcome of the body.
\<close>

theorem staging_directory_removed:
  assumes m: "mkdtemp_res env (trace w) = Inr tempdir"
  shows "last (trace (snd (git_archive_submodules env treeish output prefix ct cl co w)))
           = Rmtree tempdir
       \<and> ((\<forall>tr. rmtree_res env tr tempdir = None) \<longrightarrow>
            tempdir \<notin> dirs (snd (git_archive_submodules env treeish output prefix ct cl co w))
          \<and> dirs (snd (git_archive_submodules env treeish output prefix ct cl co w)) \<subseteq> dirs w
          \<and> fst (git_archive_submodules env treeish output prefix ct cl co w)
              = fst (git_archive_submodules_try env treeish output (sanitize_prefix prefix)
                       (rsplit1 (CHR ''.'') output ! 0) (os_path_join tempdir ''submodule.tar'')
                       ct cl co (emit Mkdtemp (w\<lparr>dirs := insert tempdir (dirs w)\<rparr>))))"
proof -
  have l: "last (trace (snd (git_archive_submodules env treeish output prefix ct cl co w)))
             = Rmtree tempdir"
    by (simp add: git_archive_submodules_trace[OF m])
  have r: "(\<forall>tr. rmtree_res env tr tempdir = None) \<longrightarrow>
            tempdir \<notin> dirs (snd (git_archive_submodules env treeish output prefix ct cl co w))
          \<and> dirs (snd (git_archive_submodules env treeish output prefix ct cl co w)) \<subseteq> dirs w
          \<and> fst (git_archive_submodules env treeish output prefix ct cl co w)
              = fst (git_archive_submodules_try env treeish output (sanitize_prefix prefix)
                       (rsplit1 (CHR ''.'') output ! 0) (os_path_join tempdir ''submodule.tar'')
                       ct cl co (emit Mkdtemp (w\<lparr>dirs := insert tempdir (dirs w)\<rparr>)))"
  proof
    assume rm: "\<forall>tr. rmtree_res env tr tempdir = None"
    show "tempdir \<notin> dirs (snd (git_archive_submodules env treeish output prefix ct cl co w))
          \<and> dirs (snd (git_archive_submodules env treeish output prefix ct cl co w)) \<subseteq> dirs w
          \<and> fst (git_archive_submodules env treeish output prefix ct cl co w)
              = fst (git_archive_submodules_try env treeish output (sanitize_prefix prefix)
                       (rsplit1 (CHR ''.'') output ! 0) (os_path_join tempdir ''submodule.tar'')
                       ct cl co (emit Mkdtemp (w\<lparr>dirs := insert tempdir (dirs w)\<rparr>)))"
      by (auto simp: git_archive_submodules_run[OF m rm] Let_def emit_simps
            git_archive_submodules_try_frame)
  qed
  from l r show ?thesis by (rule conjI)
qed

text \<open>
  Without that proviso the directory can stay: when \<open>shutil.rmtree\<close> raises,
  its exception is the outcome of the call and the staging directory is still
  there.
\<close>

lemma rmtree_failure_leaves_directory:
  assumes m: "mkdtemp_res env (trace w) = Inr tempdir"
    and rm: "\<forall>tr. rmtree_res env tr tempdir = Some e"
  shows "fst (git_archive_submodules env treeish output prefix ct cl co w) = Inl e
       \<and> tempdir \<in> dirs (snd (git_archive_submodules env treeish output prefix ct cl co w))"
  using rm
  by (simp add: git_archive_submodules_cleanup[OF m] Let_def emit_simps
        git_archive_submodules_try_frame)

lemma length_filter_steps:
  "length (filter is_submodule_archive (concat (map (submodule_steps P T S) subs))) = length subs"
  "length (filter is_catenate (concat (map (submodule_steps P T S) subs))) = length subs"
  by (induction subs)
     (simp_all add: submodule_steps_def is_submodule_archive_def is_catenate_def)

text \<open>
  C6.  When the backend reports the submodules \<open>subs\<close> for the treeish and the
  call returns, the calls made are, in this order: the main archive, the
  query for the submodules, then for each reported submodule, in the order
  reported, one archive into the intermediate file followed by its
  concatenation onto the main archive, then the compressor and the removal of
  the staging directory.  So there are exactly \<open>length subs\<close> intermediate
  archives and as many concatenations.
\<close>

theorem submodule_archives_in_order:
  assumes m: "mkdtemp_res env (trace w) = Inr tempdir"
    and g: "get_submodules_res env
              (trace w @ [Mkdtemp, RepoArchive ''tar'' (sanitize_prefix prefix)
                            (rsplit1 (CHR ''.'') output ! 0) treeish None]) treeish = Inr subs"
    and r: "fst (git_archive_submodules env treeish output prefix ct cl co w) = Inr ()"
  shows "new_events w (snd (git_archive_submodules env treeish output prefix ct cl co w)) =
           [Mkdtemp,
            RepoArchive ''tar'' (sanitize_prefix prefix) (rsplit1 (CHR ''.'') output ! 0) treeish None,
            RepoGetSubmodules treeish]
           @ concat (map (submodule_steps (sanitize_prefix prefix) (rsplit1 (CHR ''.'') output ! 0)
                            (os_path_join tempdir ''submodule.tar'')) subs)
           @ [OsSystem (compress_cmd ct cl co (rsplit1 (CHR ''.'') output ! 0)), Rmtree tempdir]
       \<and> length (filter is_submodule_archive
            (new_events w (snd (git_archive_submodules env treeish output prefix ct cl co w))))
           = length subs
       \<and> length (filter is_catenate
            (new_events w (snd (git_archive_submodules env treeish output prefix ct cl co w))))
           = length subs"
proof -
  let ?P = "sanitize_prefix prefix" and ?T = "rsplit1 (CHR ''.'') output ! 0"
  let ?S = "os_path_join tempdir ''submodule.tar''"
  let ?w0 = "emit Mkdtemp (w\<lparr>dirs := insert tempdir (dirs w)\<rparr>)"
  let ?w1 = "emit (RepoArchive ''tar'' ?P ?T treeish None) ?w0"
  let ?w2 = "emit (RepoGetSubmodules treeish) ?w1"
  let ?b = "git_archive_submodules_try env treeish output ?P ?T ?S ct cl co ?w0"
  have t1: "trace ?w1 = trace w @ [Mkdtemp, RepoArchive ''tar'' ?P ?T treeish None]"
    by (simp add: emit_simps)
  have rb: "fst ?b = Inr ()"
    by (rule git_archive_submodules_returns[OF m r])
  have a: "archive_res env (trace ?w0) ''tar'' ?P ?T treeish None = None"
    using rb by (simp add: git_archive_submodules_try_steps Let_def split: option.splits)
  have g': "get_submodules_res env (trace ?w1) treeish = Inr subs"
    using g t1 by simp
  have l: "fst (archive_submodules env ?P ?T ?S subs ?w2) = Inr ()"
    using rb a g'
    by (simp add: git_archive_submodules_try_steps Let_def split: sum.splits if_splits)
  have sb: "snd ?b = emit (OsSystem (compress_cmd ct cl co ?T))
                       (snd (archive_submodules env ?P ?T ?S subs ?w2))"
    using rb a g' l
    by (simp add: git_archive_submodules_try_steps Let_def split: sum.splits if_splits)
  have tr: "trace (snd (git_archive_submodules env treeish output prefix ct cl co w)) =
              trace w @ ([Mkdtemp, RepoArchive ''tar'' ?P ?T treeish None, RepoGetSubmodules treeish]
              @ concat (map (submodule_steps ?P ?T ?S) subs)
              @ [OsSystem (compress_cmd ct cl co ?T), Rmtree tempdir])"
    by (simp add: git_archive_submodules_trace[OF m] emit_simps sb
          archive_submodules_ok[OF l])
  then have ne: "new_events w (snd (git_archive_submodules env treeish output prefix ct cl co w)) =
              [Mkdtemp, RepoArchive ''tar'' ?P ?T treeish None, RepoGetSubmodules treeish]
              @ concat (map (submodule_steps ?P ?T ?S) subs)
              @ [OsSystem (compress_cmd ct cl co ?T), Rmtree tempdir]"
    by (simp add: new_events_def)
  show ?thesis
    by (simp add: ne length_filter_steps)
       (simp add: is_submodule_archive_def is_catenate_def)
qed

lemma rsplit1_no_sep: "c \<notin> set s \<Longrightarrow> rsplit1 c s = [s]"
  by (simp add: rsplit1_def rfind_def)

lemma rfind_last: "c \<notin> set ext \<Longrightarrow> rfind c (stem @ c # ext) = Some (length stem)"
proof -
  assume n: "c \<notin> set ext"
  then have "takeWhile (\<lambda>d. d \<noteq> c) (rev ext @ c # rev stem) = rev ext"
    by (subst takeWhile_append2) auto
  then show ?thesis by (simp add: rfind_def)
qed

lemma rsplit1_last: "c \<notin> set ext \<Longrightarrow> rsplit1 c (stem @ c # ext) = [stem, ext]"
  by (simp add: rsplit1_def rfind_last)

lemma archive_submodules_all_ok:
  assumes "\<forall>tr f p out t c. archive_res env tr f p out t c = None"
    and "\<forall>tr a b. catenate_res env tr a b = None"
  shows "fst (archive_submodules env P T S subs w) = Inr ()"
  using assms
  by (induction subs arbitrary: w) (simp_all add: ret_def archive_submodules_Cons Let_def)

text \<open>
  C10.  The intermediate main archive is the first element of
  \<open>output.rsplit('.', 1)\<close>: the output path up to its last dot, and the output
  path itself when it has no dot.  When the steps before the compressor
  succeed, the main archive is written to that path and the command line
  given to \<open>os.system\<close> is the compressor, its level and options, followed by
  that path; a nonzero result \<open>r\<close> of the compressor gives the build error
  whose text is \<open>Error creating\<close>, the output path as the caller gave it, and
  \<open>r\<close> (the error reaches the caller when the removal of the staging
  directory does not fail).
\<close>

theorem intermediate_archive_path:
  assumes m: "\<forall>tr. mkdtemp_res env tr = Inr tempdir"
    and a: "\<forall>tr f p out t c. archive_res env tr f p out t c = None"
    and g: "\<forall>tr. get_submodules_res env tr treeish = Inr subs"
    and c: "\<forall>tr a b. catenate_res env tr a b = None"
    and s: "\<forall>tr cmdline. system_res env tr cmdline = Inr r"
    and rm: "\<forall>tr. rmtree_res env tr tempdir = None"
  shows "RepoArchive ''tar'' (sanitize_prefix prefix) (rsplit1 (CHR ''.'') output ! 0) treeish None
           \<in> set (new_events w (snd (git_archive_submodules env treeish output prefix ct cl co w)))
       \<and> OsSystem (ct @ '' -'' @ cl @ '' '' @ co @ '' '' @ rsplit1 (CHR ''.'') output ! 0)
           \<in> set (new_events w (snd (git_archive_submodules env treeish output prefix ct cl co w)))
       \<and> fst (git_archive_submodules env treeish output prefix ct cl co w)
           = (if r = 0 then Inr ()
              else Inl (GbpError (''Error creating '' @ output @ '': '' @ fmt_d r)))
       \<and> (CHR ''.'' \<notin> set output \<longrightarrow> rsplit1 (CHR ''.'') output ! 0 = output)
       \<and> (\<forall>stem ext. output = stem @ ''.'' @ ext \<and> CHR ''.'' \<notin> set ext
             \<longrightarrow> rsplit1 (CHR ''.'') output ! 0 = stem)"
proof -
  let ?P = "sanitize_prefix prefix" and ?T = "rsplit1 (CHR ''.'') output ! 0"
  let ?S = "os_path_join tempdir ''submodule.tar''"
  let ?w0 = "emit Mkdtemp (w\<lparr>dirs := insert tempdir (dirs w)\<rparr>)"
  let ?w2 = "emit (RepoGetSubmodules treeish) (emit (RepoArchive ''tar'' ?P ?T treeish None) ?w0)"
  let ?b = "git_archive_submodules_try env treeish output ?P ?T ?S ct cl co ?w0"
  have m': "mkdtemp_res env (trace w) = Inr tempdir" using m by simp
  have l: "fst (archive_submodules env ?P ?T ?S subs ?w2) = Inr ()"
    by (rule archive_submodules_all_ok[OF a c])
  have fb: "fst ?b = (if r = 0 then Inr () else Inl (GbpError (creating_error output r)))"
    using a g s l by (simp add: git_archive_submodules_try_steps Let_def)
  have sb: "snd ?b = emit (OsSystem (compress_cmd ct cl co ?T))
                       (snd (archive_submodules env ?P ?T ?S subs ?w2))"
    using a g s l by (simp add: git_archive_submodules_try_steps Let_def)
  have ne: "new_events w (snd (git_archive_submodules env treeish output prefix ct cl co w)) =
              [Mkdtemp, RepoArchive ''tar'' ?P ?T treeish None, RepoGetSubmodules treeish]
              @ concat (map (submodule_steps ?P ?T ?S) subs)
              @ [OsSystem (compress_cmd ct cl co ?T), Rmtree tempdir]"
    by (simp add: new_events_def git_archive_submodules_trace[OF m'] emit_simps sb
          archive_submodules_ok[OF l])
  have r1: "fst (git_archive_submodules env treeish output prefix ct cl co w)
           = (if r = 0 then Inr () else Inl (GbpError (creating_error output r)))"
    using fb by (simp add: git_archive_submodules_run[OF m' rm] Let_def)
  have d1: "CHR ''.'' \<notin> set output \<longrightarrow> ?T = output"
    by (simp add: rsplit1_no_sep)
  have d2: "\<forall>stem ext. output = stem @ ''.'' @ ext \<and> CHR ''.'' \<notin> set ext \<longrightarrow> ?T = stem"
    by (auto simp: rsplit1_last)
  show ?thesis
    using r1 d1 d2 by (simp add: ne compress_cmd_def creating_error_def)
qed

theorem intermediate_archive_path_witness:
  "(\<forall>tr. mkdtemp_res env_compress_fails tr = Inr ''/tmp/tmpA'')
   \<and> (\<forall>tr f p out t c. archive_res env_compress_fails tr f p out t c = None)
   \<and> (\<forall>tr. get_submodules_res env_compress_fails tr ''HEAD''
              = Inr [(''./sub1'', ''0123456789abcdef''), (''lib/sub2'', ''fedcba9876543210'')])
   \<and> (\<forall>tr a b. catenate_res env_compress_fails tr a b = None)
   \<and> (\<forall>tr cmdline. system_res env_compress_fails tr cmdline = Inr 256)
   \<and> (\<forall>tr. rmtree_res env_compress_fails tr ''/tmp/tmpA'' = None)
   \<and> CHR ''.'' \<notin> set ''/out/pkg''
   \<and> RepoArchive ''tar'' ''pkg-1.0/'' ''/out/pkg'' ''HEAD'' None
        \<in> set (new_events world0
                 (snd (git_archive_submodules env_compress_fails ''HEAD'' ''/out/pkg'' ''pkg-1.0''
                         ''gzip'' ''9'' ''-n'' world0)))
   \<and> OsSystem ''gzip -9 -n /out/pkg''
        \<in> set (new_events world0
                 (snd (git_archive_submodules env_compress_fails ''HEAD'' ''/out/pkg'' ''pkg-1.0''
                         ''gzip'' ''9'' ''-n'' world0)))
   \<and> fst (git_archive_submodules env_compress_fails ''HEAD'' ''/out/pkg'' ''pkg-1.0''
            ''gzip'' ''9'' ''-n'' world0)
        = Inl (GbpError ''Error creating /out/pkg: 256'')"
proof -
  have m: "\<forall>tr. mkdtemp_res env_compress_fails tr = Inr ''/tmp/tmpA''"
    and a: "\<forall>tr f p out t c. archive_res env_compress_fails tr f p out t c = None"
    and g: "\<forall>tr. get_submodules_res env_compress_fails tr ''HEAD''
              = Inr [(''./sub1'', ''0123456789abcdef''), (''lib/sub2'', ''fedcba9876543210'')]"
    and c: "\<forall>tr a b. catenate_res env_compress_fails tr a b = None"
    and s: "\<forall>tr cmdline. system_res env_compress_fails tr cmdline = Inr 256"
    and rm: "\<forall>tr. rmtree_res env_compress_fails tr ''/tmp/tmpA'' = None"
    by (simp_all add: env_compress_fails_def env0_def)
  have T: "rsplit1 (CHR ''.'') ''/out/pkg'' ! 0 = ''/out/pkg''"
    by (simp add: rsplit1_def rfind_def)
  have P: "sanitize_prefix ''pkg-1.0'' = ''pkg-1.0/''"
    by (simp add: sanitize_prefix_def strip_def lstrip_def rstrip_def)
  have C: "''gzip'' @ '' -'' @ ''9'' @ '' '' @ ''-n'' @ '' '' @ ''/out/pkg'' = ''gzip -9 -n /out/pkg''"
    by simp
  have E: "''Error creating '' @ ''/out/pkg'' @ '': '' @ fmt_d 256 = ''Error creating /out/pkg: 256''"
    by (simp add: fmt_d_def digit_def)
  note th = intermediate_archive_path[OF m a g c s rm, of "''pkg-1.0''" "''/out/pkg''" world0
              "''gzip''" "''9''" "''-n''", unfolded T P C E]
  from th m a g c s rm show ?thesis by simp
qed

theorem staging_directory_removed_witness:
  "mkdtemp_res env_compress_fails (trace world0) = Inr ''/tmp/tmpA''
   \<and> (\<forall>tr. rmtree_res env_compress_fails tr ''/tmp/tmpA'' = None)
   \<and> last (trace (snd (git_archive_submodules env_compress_fails ''HEAD''
                         ''/out/pkg_1.0.orig.tar.gz'' ''pkg-1.0'' ''gzip'' ''9'' [] world0)))
        = Rmtree ''/tmp/tmpA''
   \<and> ''/tmp/tmpA'' \<notin> dirs (snd (git_archive_submodules env_compress_fails ''HEAD''
                                   ''/out/pkg_1.0.orig.tar.gz'' ''pkg-1.0'' ''gzip'' ''9'' [] world0))"
proof -
  have m: "mkdtemp_res env_compress_fails (trace world0) = Inr ''/tmp/tmpA''"
    and rm: "\<forall>tr. rmtree_res env_compress_fails tr ''/tmp/tmpA'' = None"
    by (simp_all add: env_compress_fails_def env0_def)
  from staging_directory_removed[OF m, of "''HEAD''" "''/out/pkg_1.0.orig.tar.gz''"
         "''pkg-1.0''" "''gzip''" "''9''" "[]"] m rm
  show ?thesis by blast
qed

theorem submodule_archives_in_order_witness:
  "mkdtemp_res env0 (trace world0) = Inr ''/tmp/tmpA''
   \<and> get_submodules_res env0
        (trace world0 @ [Mkdtemp, RepoArchive ''tar'' (sanitize_prefix ''pkg-1.0'')
                           (rsplit1 (CHR ''.'') ''/out/pkg.tar.gz'' ! 0) ''HEAD'' None]) ''HEAD''
        = Inr [(''./sub1'', ''0123456789abcdef''), (''lib/sub2'', ''fedcba9876543210'')]
   \<and> fst (git_archive_submodules env0 ''HEAD'' ''/out/pkg.tar.gz'' ''pkg-1.0'' ''gzip'' ''9'' []
            world0) = Inr ()
   \<and> length (filter is_submodule_archive
        (new_events world0 (snd (git_archive_submodules env0 ''HEAD'' ''/out/pkg.tar.gz''
                                   ''pkg-1.0'' ''gzip'' ''9'' [] world0)))) = 2"
proof -
  have m: "mkdtemp_res env0 (trace world0) = Inr ''/tmp/tmpA''"
    by (simp add: env0_def)
  have g: "get_submodules_res env0
        (trace world0 @ [Mkdtemp, RepoArchive ''tar'' (sanitize_prefix ''pkg-1.0'')
                           (rsplit1 (CHR ''.'') ''/out/pkg.tar.gz'' ! 0) ''HEAD'' None]) ''HEAD''
        = Inr [(''./sub1'', ''0123456789abcdef''), (''lib/sub2'', ''fedcba9876543210'')]"
    by (simp add: env0_def)
  have r: "fst (git_archive_submodules env0 ''HEAD'' ''/out/pkg.tar.gz'' ''pkg-1.0'' ''gzip'' ''9'' []
            world0) = Inr ()"
    by code_simp
  from submodule_archives_in_order[OF m g r, THEN conjunct2, THEN conjunct1]
  have n: "length (filter is_submodule_archive
        (new_events world0 (snd (git_archive_submodules env0 ''HEAD'' ''/out/pkg.tar.gz''
                                   ''pkg-1.0'' ''gzip'' ''9'' [] world0)))) = 2"
    by simp
  from m g r n show ?thesis by blast
qed


section \<open>Properties of the tree exporter\<close>

lemma os_path_join_abs: "startswith b ''/'' \<Longrightarrow> os_path_join a b = b"
  by (simp add: os_path_join_def)

lemma os_chdir_steps:
  "os_chdir env p w =
     (case chdir_res env (trace w) (os_path_join (cwd w) p) of
        Some e \<Rightarrow> (Inl e, emit (Chdir p) w)
      | None \<Rightarrow> (Inr (), emit (Chdir p) (w\<lparr>cwd := os_path_join (cwd w) p\<rparr>)))"
  by (simp add: os_chdir_def)

lemma dump_tree_paths_frame:
  "cwd (snd (dump_tree_paths env treeish recursive w)) = cwd w \<and>
   dirs (snd (dump_tree_paths env treeish recursive w)) = dirs w"
  by (simp add: dump_tree_paths_def ret_def repo_list_tree_def bnd_call_val emit_simps
        split: sum.splits)

lemma dump_tree_steps:
  "dump_tree env export_dir treeish with_submodules recursive w =
     (case fst (dump_tree_paths env treeish recursive w) of
        Inl e \<Rightarrow> (Inl e, snd (dump_tree_paths env treeish recursive w))
      | Inr paths \<Rightarrow>
          try_finally
            (\<lambda>w1. case fst (dump_tree_try env
                         (dump_tree_pipe env (sanitize_prefix (os_path_basename export_dir)) treeish
                            (os_path_dirname export_dir) paths)
                         (sanitize_prefix (os_path_basename export_dir))
                         (os_path_dirname export_dir) (cwd w) treeish with_submodules recursive w1) of
                     Inl e \<Rightarrow> dump_tree_except (os_path_dirname export_dir) e
                               (snd (dump_tree_try env
                         (dump_tree_pipe env (sanitize_prefix (os_path_basename export_dir)) treeish
                            (os_path_dirname export_dir) paths)
                         (sanitize_prefix (os_path_basename export_dir))
                         (os_path_dirname export_dir) (cwd w) treeish with_submodules recursive w1))
                   | Inr u \<Rightarrow> (Inr True, snd (dump_tree_try env
                         (dump_tree_pipe env (sanitize_prefix (os_path_basename export_dir)) treeish
                            (os_path_dirname export_dir) paths)
                         (sanitize_prefix (os_path_basename export_dir))
                         (os_path_dirname export_dir) (cwd w) treeish with_submodules recursive w1)))
            (os_chdir env (cwd w))
            (snd (dump_tree_paths env treeish recursive w)))"
proof (cases "dump_tree_paths env treeish recursive w")
  case (Pair r w0)
  have c: "cwd w0 = cwd w" using dump_tree_paths_frame[of env treeish recursive w] Pair by simp
  show ?thesis
    using Pair c
    by (cases r) (auto simp: dump_tree_def Let_def bnd_def try_finally_def
          split: prod.splits sum.splits)
qed

lemma try_finally_chdir_cwd:
  assumes "startswith top0 ''/''" and "\<forall>tr. chdir_res env tr top0 = None"
  shows "try_finally body (os_chdir env top0) w =
           (fst (body w), emit (Chdir top0) ((snd (body w))\<lparr>cwd := top0\<rparr>))"
  using assms
  by (cases "body w") (simp add: try_finally_def os_chdir_steps os_path_join_abs)

text \<open>
  C4.  After any call of \<open>dump_tree\<close>, whatever its outcome (\<open>True\<close>, \<open>False\<close>
  after a caught error, an exception raised before or inside the \<open>try\<close>
  statement at any point of the submodule loop), the working directory is the
  one the call started in.  The working directory is an absolute path, and the
  directory the call started in can still be entered: \<open>os.chdir(top)\<close> in the
  \<open>finally\<close> clause succeeds.
\<close>

theorem dump_tree_restores_cwd:
  assumes "startswith (cwd w) ''/''" and "\<forall>tr. chdir_res env tr (cwd w) = None"
  shows "cwd (snd (dump_tree env export_dir treeish with_submodules recursive w)) = cwd w"
  by (simp add: dump_tree_steps try_finally_chdir_cwd[OF assms] emit_simps dump_tree_paths_frame
        split: sum.splits)

lemma dump_tree_except_result:
  "dump_tree_except output_dir e w =
     (if is_Exception e
      then (Inr False,
            emit (LogErr (case e of OSError n s \<Rightarrow> dumping_error output_dir (fmt_d n)
                          | GbpError m \<Rightarrow> m
                          | _ \<Rightarrow> dumping_error output_dir (exn_str e))) w)
      else (Inl e, w))"
  by (cases e) (simp_all add: dump_tree_except_def is_Exception_def thn_log ret_def raise_def)


text \<open>
  C5, as the code has it.  Once the path list is built and the \<open>try\<close>
  statement is entered, the result of \<open>dump_tree\<close> is fixed by the outcome of
  the body of the \<open>try\<close> statement: \<open>True\<close> when the body completes; \<open>False\<close>,
  after one message to the error log, when the body raises an \<open>OSError\<close>, a
  \<open>GbpError\<close> or any other exception derived from \<open>Exception\<close>; an exception
  that does not derive from \<open>Exception\<close> is not caught.  (As for C4, the
  directory the call started in can be entered again.)
\<close>

theorem dump_tree_swallows_exceptions:
  assumes a: "startswith (cwd w) ''/''" and c: "\<forall>tr. chdir_res env tr (cwd w) = None"
    and p: "fst (dump_tree_paths env treeish recursive w) = Inr paths"
  shows "fst (dump_tree env export_dir treeish with_submodules recursive w) =
           (case fst (dump_tree_try env
                        (dump_tree_pipe env (sanitize_prefix (os_path_basename export_dir)) treeish
                           (os_path_dirname export_dir) paths)
                        (sanitize_prefix (os_path_basename export_dir))
                        (os_path_dirname export_dir) (cwd w) treeish with_submodules recursive
                        (snd (dump_tree_paths env treeish recursive w))) of
              Inr u \<Rightarrow> Inr True
            | Inl e \<Rightarrow> if is_Exception e then Inr False else Inl e)
       \<and> (fst (dump_tree env export_dir treeish with_submodules recursive w) = Inr False
            \<longrightarrow> (\<exists>msg. trace (snd (dump_tree env export_dir treeish with_submodules recursive w))
                     = trace (snd (dump_tree_try env
                        (dump_tree_pipe env (sanitize_prefix (os_path_basename export_dir)) treeish
                           (os_path_dirname export_dir) paths)
                        (sanitize_prefix (os_path_basename export_dir))
                        (os_path_dirname export_dir) (cwd w) treeish with_submodules recursive
                        (snd (dump_tree_paths env treeish recursive w))))
                       @ [LogErr msg, Chdir (cwd w)]))"
proof -
  let ?P = "sanitize_prefix (os_path_basename export_dir)"
  let ?od = "os_path_dirname export_dir"
  let ?w0 = "snd (dump_tree_paths env treeish recursive w)"
  let ?t = "dump_tree_try env (dump_tree_pipe env ?P treeish ?od paths) ?P ?od (cwd w) treeish
              with_submodules recursive ?w0"
  show ?thesis
  proof (cases "fst ?t")
    case (Inr u)
    then show ?thesis
      by (simp add: dump_tree_steps p try_finally_chdir_cwd[OF a c])
  next
    case (Inl e)
    show ?thesis
    proof (cases "is_Exception e")
      case True
      with Inl show ?thesis
        by (simp add: dump_tree_steps p try_finally_chdir_cwd[OF a c] dump_tree_except_result
              emit_simps)
    next
      case False
      with Inl show ?thesis
        by (simp add: dump_tree_steps p try_finally_chdir_cwd[OF a c] dump_tree_except_result)
    qed
  qed
qed

lemmas dump_eval = env0_def world0_def dump_tree_def dump_tree_paths_def dump_tree_try_def
  dump_tree_except_def try_finally_def bnd_def thn_def ret_def raise_def call_unit_def
  call_val_def emit_def log_info_def log_err_def repo_list_tree_def repo_has_submodules_def
  repo_update_submodules_def repo_get_submodules_def pipe_copy_def os_chdir_def Let_def

text \<open>
  C5 as it is worded fails: an error of \<open>list_tree\<close> in a non-recursive export
  is raised before the \<open>try\<close> statement and reaches the caller, and a
  \<open>KeyboardInterrupt\<close> during the export is matched by no \<open>except\<close> clause.
\<close>

theorem dump_tree_propagates_counterexample:
  "fst (dump_tree env_list_tree_fails ''/out/pkg-1.0'' ''HEAD'' False False world0)
     = Inl (GbpError ''git ls-tree failed'')
   \<and> fst (dump_tree env_interrupted ''/out/pkg-1.0'' ''HEAD'' True True world0)
     = Inl (BaseExc ''KeyboardInterrupt'')"
  by (simp add: env_list_tree_fails_def env_interrupted_def dump_eval os_path_join_def
        startswith_def)

theorem dump_tree_restores_cwd_witness:
  "startswith (cwd world0) ''/''
   \<and> (\<forall>tr. chdir_res env_submodule_fails tr (cwd world0) = None)
   \<and> cwd (snd (dump_tree env_submodule_fails ''/out/pkg-1.0'' ''HEAD'' True True world0))
       = cwd world0"
proof -
  have a: "startswith (cwd world0) ''/''"
    by (simp add: world0_def startswith_def)
  have c: "\<forall>tr. chdir_res env_submodule_fails tr (cwd world0) = None"
    by (simp add: env_submodule_fails_def env0_def)
  from dump_tree_restores_cwd[OF a c] a c show ?thesis by blast
qed

theorem dump_tree_swallows_exceptions_witness:
  "startswith (cwd world0) ''/''
   \<and> (\<forall>tr. chdir_res env_submodule_fails tr (cwd world0) = None)
   \<and> fst (dump_tree_paths env_submodule_fails ''HEAD'' True world0) = Inr []
   \<and> fst (dump_tree env_submodule_fails ''/out/pkg-1.0'' ''HEAD'' True True world0) = Inr False"
proof -
  have a: "startswith (cwd world0) ''/''"
    by (simp add: world0_def startswith_def)
  have c: "\<forall>tr. chdir_res env_submodule_fails tr (cwd world0) = None"
    by (simp add: env_submodule_fails_def env0_def)
  have p: "fst (dump_tree_paths env_submodule_fails ''HEAD'' True world0) = Inr []"
    by (simp add: dump_tree_paths_def ret_def)
  have t: "fst (dump_tree_try env_submodule_fails
                  (dump_tree_pipe env_submodule_fails (sanitize_prefix (os_path_basename ''/out/pkg-1.0''))
                     ''HEAD'' (os_path_dirname ''/out/pkg-1.0'') [])
                  (sanitize_prefix (os_path_basename ''/out/pkg-1.0''))
                  (os_path_dirname ''/out/pkg-1.0'') (cwd world0) ''HEAD'' True True
                  (snd (dump_tree_paths env_submodule_fails ''HEAD'' True world0)))
             = Inl (OSError 32 ''Broken pipe'')"
    by code_simp
  from dump_tree_swallows_exceptions[OF a c p, of "''/out/pkg-1.0''" True, THEN conjunct1]
  have "fst (dump_tree env_submodule_fails ''/out/pkg-1.0'' ''HEAD'' True True world0) = Inr False"
    by (simp add: t is_Exception_def)
  with a c p show ?thesis by blast
qed


lemma only_pipes_simps:
  "only_pipes A []"
  "only_pipes A (xs @ ys) = (only_pipes A xs \<and> only_pipes A ys)"
  "only_pipes A (PipeCopy pipe i out # xs) = (pipe \<in> A \<and> only_pipes A xs)"
  "only_pipes A (LogInfo m # xs) = only_pipes A xs"
  "only_pipes A (LogErr m # xs) = only_pipes A xs"
  "only_pipes A (Chdir d # xs) = only_pipes A xs"
  "only_pipes A (RepoListTree t # xs) = only_pipes A xs"
  "only_pipes A (RepoHasSubmodules # xs) = only_pipes A xs"
  "only_pipes A (RepoUpdateSubmodules # xs) = only_pipes A xs"
  "only_pipes A (RepoGetSubmodules t # xs) = only_pipes A xs"
  by (auto simp: only_pipes_def)

lemma only_pipes_mono: "only_pipes A evs \<Longrightarrow> A \<subseteq> B \<Longrightarrow> only_pipes B evs"
  by (auto simp: only_pipes_def split: event.splits)

lemma thn_os_chdir:
  "thn (os_chdir env p) n w =
     (case chdir_res env (trace w) (os_path_join (cwd w) p) of
        Some e \<Rightarrow> (Inl e, emit (Chdir p) w)
      | None \<Rightarrow> n (emit (Chdir p) (w\<lparr>cwd := os_path_join (cwd w) p\<rparr>)))"
  by (simp add: thn_def bnd_def os_chdir_def split: option.splits)

lemma dump_submodules_Cons:
  "dump_submodules env P od top0 (sc # rest) w =
     (let w1 = emit (LogInfo (processing_msg (fst sc) (snd sc))) w;
          w2 = emit (Chdir (fst sc)) (w1\<lparr>cwd := os_path_join (cwd w1) (fst sc)\<rparr>);
          w3 = emit (PipeCopy (submodule_pipe env P od (fst sc) (snd sc)) [] []) w2;
          w4 = emit (Chdir top0) (w3\<lparr>cwd := os_path_join (cwd w3) top0\<rparr>)
      in case chdir_res env (trace w1) (os_path_join (cwd w1) (fst sc)) of
           Some e \<Rightarrow> (Inl e, emit (Chdir (fst sc)) w1)
         | None \<Rightarrow>
            (case pipe_copy_res env (trace w2) (submodule_pipe env P od (fst sc) (snd sc)) [] [] of
               Inl e \<Rightarrow> (Inl e, w3)
             | Inr r \<Rightarrow>
                (case chdir_res env (trace w3) (os_path_join (cwd w3) top0) of
                   Some e \<Rightarrow> (Inl e, emit (Chdir top0) w3)
                 | None \<Rightarrow>
                    (if r \<noteq> 0
                     then (Inl (GbpError (''Error in dump_tree archive pipe in submodule '' @ fst sc)), w4)
                     else dump_submodules env P od top0 rest w4))))"
  by (cases sc)
     (simp add: thn_log thn_os_chdir pipe_copy_def bnd_call_val Let_def raise_def
        split: option.splits sum.splits)

lemma dump_submodules_events:
  "\<exists>evs. trace (snd (dump_submodules env P od top0 subs w)) = trace w @ evs \<and>
         only_pipes ((\<lambda>sc. submodule_pipe env P od (fst sc) (snd sc)) ` set subs) evs"
proof (induction subs arbitrary: w)
  case Nil
  show ?case by (simp add: ret_def only_pipes_simps)
next
  case (Cons sc rest)
  let ?A = "(\<lambda>sc. submodule_pipe env P od (fst sc) (snd sc)) ` set (sc # rest)"
  let ?w1 = "emit (LogInfo (processing_msg (fst sc) (snd sc))) w"
  let ?w2 = "emit (Chdir (fst sc)) (?w1\<lparr>cwd := os_path_join (cwd ?w1) (fst sc)\<rparr>)"
  let ?w3 = "emit (PipeCopy (submodule_pipe env P od (fst sc) (snd sc)) [] []) ?w2"
  let ?w4 = "emit (Chdir top0) (?w3\<lparr>cwd := os_path_join (cwd ?w3) top0\<rparr>)"
  from Cons.IH[of ?w4] obtain evs where
    e: "trace (snd (dump_submodules env P od top0 rest ?w4)) = trace ?w4 @ evs"
    and o: "only_pipes ((\<lambda>sc. submodule_pipe env P od (fst sc) (snd sc)) ` set rest) evs"
    by blast
  from o have o': "only_pipes ?A evs"
    by (rule only_pipes_mono) auto
  show ?case
    using e o'
    by (auto simp: dump_submodules_Cons Let_def emit_simps only_pipes_simps
          split: option.splits sum.splits)
qed

lemma dump_tree_try_events:
  assumes g: "\<forall>tr. get_submodules_res env tr treeish = Inr subs"
  shows "\<exists>evs. trace (snd (dump_tree_try env pipe P od top0 treeish ws rec w)) = trace w @ evs \<and>
         only_pipes (insert pipe ((\<lambda>sc. submodule_pipe env P od (fst sc) (snd sc)) ` set subs)) evs"
proof -
  let ?A = "(\<lambda>sc. submodule_pipe env P od (fst sc) (snd sc)) ` set subs"
  have loop: "\<And>w'. \<exists>evs. trace (snd (dump_submodules env P od top0 subs w')) = trace w' @ evs \<and>
         only_pipes (insert pipe ?A) evs"
  proof -
    fix w'
    from dump_submodules_events[of env P od top0 subs w'] obtain evs where
      "trace (snd (dump_submodules env P od top0 subs w')) = trace w' @ evs" "only_pipes ?A evs"
      by blast
    then show "\<exists>evs. trace (snd (dump_submodules env P od top0 subs w')) = trace w' @ evs \<and>
         only_pipes (insert pipe ?A) evs"
      using only_pipes_mono[of ?A evs "insert pipe ?A"] by blast
  qed
  let ?w1 = "emit (PipeCopy pipe [] []) w"
  let ?w2 = "emit RepoHasSubmodules ?w1"
  let ?w3 = "emit RepoUpdateSubmodules ?w2"
  let ?w4 = "emit (RepoGetSubmodules treeish) ?w3"
  let ?w4' = "emit (RepoGetSubmodules treeish) ?w2"
  from loop[of ?w4] loop[of ?w4'] g show ?thesis
    by (auto simp: dump_tree_try_def pipe_copy_def bnd_call_val repo_has_submodules_def
          repo_update_submodules_def repo_get_submodules_def thn_def bnd_def call_unit_def
          call_val_def ret_def raise_def emit_simps only_pipes_simps
          split: sum.splits option.splits)
qed


lemma dump_tree_paths_trace:
  "\<exists>evs. trace (snd (dump_tree_paths env treeish recursive w)) = trace w @ evs \<and> only_pipes A evs"
  by (simp add: dump_tree_paths_def ret_def repo_list_tree_def bnd_call_val emit_simps
        only_pipes_simps split: sum.splits)

lemma dump_tree_events:
  assumes g: "\<forall>tr. get_submodules_res env tr treeish = Inr subs"
  shows "\<exists>evs. trace (snd (dump_tree env export_dir treeish ws rec w)) = trace w @ evs \<and>
           only_pipes
             (range (dump_tree_pipe env (sanitize_prefix (os_path_basename export_dir)) treeish
                       (os_path_dirname export_dir))
              \<union> (\<lambda>sc. submodule_pipe env (sanitize_prefix (os_path_basename export_dir))
                          (os_path_dirname export_dir) (fst sc) (snd sc)) ` set subs) evs"
proof -
  let ?P = "sanitize_prefix (os_path_basename export_dir)"
  let ?od = "os_path_dirname export_dir"
  let ?A = "range (dump_tree_pipe env ?P treeish ?od)
              \<union> (\<lambda>sc. submodule_pipe env ?P ?od (fst sc) (snd sc)) ` set subs"
  let ?w0 = "snd (dump_tree_paths env treeish rec w)"
  from dump_tree_paths_trace[of env treeish rec w ?A] obtain evs0 where
    e0: "trace ?w0 = trace w @ evs0" and o0: "only_pipes ?A evs0" by blast
  show ?thesis
  proof (cases "fst (dump_tree_paths env treeish rec w)")
    case (Inl e)
    with e0 o0 show ?thesis by (simp add: dump_tree_steps)
  next
    case (Inr paths)
    let ?pipe = "dump_tree_pipe env ?P treeish ?od paths"
    let ?t = "dump_tree_try env ?pipe ?P ?od (cwd w) treeish ws rec ?w0"
    from dump_tree_try_events[OF g, of ?pipe ?P ?od "cwd w" ws rec ?w0] obtain evs1 where
      e1: "trace (snd ?t) = trace ?w0 @ evs1"
      and o1: "only_pipes (insert ?pipe ((\<lambda>sc. submodule_pipe env ?P ?od (fst sc) (snd sc)) ` set subs)) evs1"
      by blast
    from o1 have o1': "only_pipes ?A evs1"
      by (rule only_pipes_mono) auto
    show ?thesis
      using Inr e0 e1 o0 o1'
      by (cases "fst ?t")
         (auto simp: dump_tree_steps try_finally_def os_chdir_steps dump_tree_except_result
            emit_simps only_pipes_simps split: prod.splits option.splits sum.splits)
  qed
qed

section \<open>Properties of the submodule path adjustment\<close>

lemma archive_submodules_events:
  "\<exists>evs. trace (snd (archive_submodules env P T S subs w)) = trace w @ evs \<and>
         set evs \<subseteq> set (concat (map (submodule_steps P T S) subs))"
proof (induction subs arbitrary: w)
  case Nil
  show ?case by (simp add: ret_def)
next
  case (Cons sc rest)
  let ?w3 = "emit (CatenateTar T S)
               (emit (RepoArchive ''tar'' (submodule_prefix P (fst sc)) S (snd sc) (Some (fst sc)))
                  (emit (LogDebug (processing_msg (fst sc) (snd sc))) w))"
  from Cons.IH[of ?w3] obtain evs where
    "trace (snd (archive_submodules env P T S rest ?w3)) = trace ?w3 @ evs"
    "set evs \<subseteq> set (concat (map (submodule_steps P T S) rest))"
    by blast
  then show ?case
    by (auto simp: archive_submodules_Cons Let_def emit_simps submodule_steps_def
          submodule_prefix_eq split: option.splits)
qed

lemma git_archive_submodules_events:
  assumes g: "\<forall>tr. get_submodules_res env tr treeish = Inr subs"
  shows "\<exists>S. set (filter is_submodule_archive
                  (new_events w (snd (git_archive_submodules env treeish output prefix ct cl co w))))
           \<subseteq> set (concat (map (submodule_steps (sanitize_prefix prefix)
                                  (rsplit1 (CHR ''.'') output ! 0) S) subs))"
proof (cases "mkdtemp_res env (trace w)")
  case (Inl e)
  then show ?thesis
    by (simp add: git_archive_submodules_steps new_events_def emit_simps is_submodule_archive_def)
next
  case (Inr d)
  let ?P = "sanitize_prefix prefix" and ?T = "rsplit1 (CHR ''.'') output ! 0"
  let ?S = "os_path_join d ''submodule.tar''"
  let ?w0 = "emit Mkdtemp (w\<lparr>dirs := insert d (dirs w)\<rparr>)"
  let ?w2 = "emit (RepoGetSubmodules treeish) (emit (RepoArchive ''tar'' ?P ?T treeish None) ?w0)"
  from archive_submodules_events[of env ?P ?T ?S subs ?w2] obtain evs where
    e: "trace (snd (archive_submodules env ?P ?T ?S subs ?w2)) = trace ?w2 @ evs"
    and o: "set evs \<subseteq> set (concat (map (submodule_steps ?P ?T ?S) subs))"
    by blast
  have "set (filter is_submodule_archive
                  (new_events w (snd (git_archive_submodules env treeish output prefix ct cl co w))))
           \<subseteq> set (concat (map (submodule_steps ?P ?T ?S) subs))"
    using e o g
    by (auto simp: git_archive_submodules_trace[OF Inr] git_archive_submodules_try_steps Let_def
          new_events_def emit_simps is_submodule_archive_def
          split: option.splits sum.splits if_splits)
  then show ?thesis by blast
qed

lemma sanitize_prefix_snoc: "\<exists>q. sanitize_prefix x = q @ ''/''"
  by (simp add: sanitize_prefix_def)

lemma trailing_seps_submodule_prefix:
  "(trailing_seps (sanitize_prefix x @ adj @ ''/'') = 1) = (adj \<noteq> [] \<and> last adj \<noteq> CHR ''/'')"
proof (cases adj rule: rev_cases)
  case Nil
  from sanitize_prefix_snoc[of x] obtain q where "sanitize_prefix x = q @ ''/''" by blast
  with Nil show ?thesis by (simp add: trailing_seps_def)
next
  case (snoc ys y)
  then show ?thesis by (simp add: trailing_seps_def)
qed

text \<open>
  C1, as the code has it.  Let the backend report the submodule records
  \<open>subs\<close> for the treeish.  Every archive call that \<open>git_archive_submodules\<close>
  makes for a submodule is made for one of the reported records
  \<open>(subdir, commit)\<close>, and its prefix is the normalised outer prefix, followed
  by \<open>subdir\<close> without its first two characters when these are \<open>./\<close> and by
  \<open>subdir\<close> unchanged otherwise, followed by one separator.  Every pipeline
  that \<open>dump_tree\<close> runs is either the one for the tree itself or, for one of
  the reported records, the export with the prefix formed in the same way.
  Such a prefix ends with exactly one separator exactly when the adjusted
  path is not empty and does not itself end with a separator.
\<close>

theorem submodule_archive_prefix:
  assumes g: "\<forall>tr. get_submodules_res env tr treeish = Inr subs"
  shows "(\<forall>ev \<in> set (new_events w
                      (snd (git_archive_submodules env treeish output prefix ct cl co w))).
            \<forall>f p out t subdir. ev = RepoArchive f p out t (Some subdir) \<longrightarrow>
              (subdir, t) \<in> set subs
              \<and> p = sanitize_prefix prefix
                    @ (if take 2 subdir = ''./'' then drop 2 subdir else subdir) @ ''/''
              \<and> (trailing_seps p = 1)
                  = ((if take 2 subdir = ''./'' then drop 2 subdir else subdir) \<noteq> []
                     \<and> last (if take 2 subdir = ''./'' then drop 2 subdir else subdir)
                         \<noteq> CHR ''/''))
       \<and> (\<forall>ev \<in> set (new_events w
                      (snd (dump_tree env export_dir treeish with_submodules recursive w))).
            \<forall>pipe i out. ev = PipeCopy pipe i out \<longrightarrow>
              (\<exists>paths. pipe =
                    [(''git archive --format=tar --prefix=''
                        @ sanitize_prefix (os_path_basename export_dir) @ '' '' @ treeish
                        @ '' -- '' @ join '' '' paths, ''.-''),
                     (''tar -C '' @ pipes_quote env (os_path_dirname export_dir) @ '' -xf -'',
                      ''-.'')])
              \<or> (\<exists>subdir commit. (subdir, commit) \<in> set subs
                    \<and> pipe =
                        [(''git archive --format=tar --prefix=''
                            @ (sanitize_prefix (os_path_basename export_dir)
                                 @ (if take 2 subdir = ''./'' then drop 2 subdir else subdir)
                                 @ ''/'')
                            @ '' '' @ commit, ''.-''),
                         (''tar -C '' @ pipes_quote env (os_path_dirname export_dir) @ '' -xf -'',
                          ''-.'')]
                    \<and> (trailing_seps (sanitize_prefix (os_path_basename export_dir)
                                        @ (if take 2 subdir = ''./'' then drop 2 subdir else subdir)
                                        @ ''/'') = 1)
                        = ((if take 2 subdir = ''./'' then drop 2 subdir else subdir) \<noteq> []
                           \<and> last (if take 2 subdir = ''./'' then drop 2 subdir else subdir)
                               \<noteq> CHR ''/'')))"
proof -
  have A: "\<forall>ev \<in> set (new_events w
                      (snd (git_archive_submodules env treeish output prefix ct cl co w))).
            \<forall>f p out t subdir. ev = RepoArchive f p out t (Some subdir) \<longrightarrow>
              (subdir, t) \<in> set subs
              \<and> p = sanitize_prefix prefix
                    @ (if take 2 subdir = ''./'' then drop 2 subdir else subdir) @ ''/''
              \<and> (trailing_seps p = 1)
                  = ((if take 2 subdir = ''./'' then drop 2 subdir else subdir) \<noteq> []
                     \<and> last (if take 2 subdir = ''./'' then drop 2 subdir else subdir)
                         \<noteq> CHR ''/'')"
  proof (intro ballI allI impI)
    fix ev f p out t subdir
    assume m: "ev \<in> set (new_events w
                      (snd (git_archive_submodules env treeish output prefix ct cl co w)))"
      and ev: "ev = RepoArchive f p out t (Some subdir)"
    let ?a = "if take 2 subdir = ''./'' then drop 2 subdir else subdir"
    from git_archive_submodules_events[OF g] obtain S where
      s: "set (filter is_submodule_archive
                  (new_events w (snd (git_archive_submodules env treeish output prefix ct cl co w))))
           \<subseteq> set (concat (map (submodule_steps (sanitize_prefix prefix)
                                  (rsplit1 (CHR ''.'') output ! 0) S) subs))"
      by blast
    from m ev have "ev \<in> set (filter is_submodule_archive
                  (new_events w (snd (git_archive_submodules env treeish output prefix ct cl co w))))"
      by (simp add: is_submodule_archive_def)
    with s have "ev \<in> set (concat (map (submodule_steps (sanitize_prefix prefix)
                                  (rsplit1 (CHR ''.'') output ! 0) S) subs))"
      by blast
    with ev have 1: "(subdir, t) \<in> set subs" and 2: "p = sanitize_prefix prefix @ ?a @ ''/''"
      by (auto simp: submodule_steps_def)
    have 3: "(trailing_seps p = 1) = (?a \<noteq> [] \<and> last ?a \<noteq> CHR ''/'')"
      unfolding 2 by (rule trailing_seps_submodule_prefix)
    from 1 2 3 show "(subdir, t) \<in> set subs \<and> p = sanitize_prefix prefix @ ?a @ ''/''
              \<and> (trailing_seps p = 1) = (?a \<noteq> [] \<and> last ?a \<noteq> CHR ''/'')"
      by blast
  qed
  have B: "\<forall>ev \<in> set (new_events w
                      (snd (dump_tree env export_dir treeish with_submodules recursive w))).
            \<forall>pipe i out. ev = PipeCopy pipe i out \<longrightarrow>
              (\<exists>paths. pipe =
                    [(''git archive --format=tar --prefix=''
                        @ sanitize_prefix (os_path_basename export_dir) @ '' '' @ treeish
                        @ '' -- '' @ join '' '' paths, ''.-''),
                     (''tar -C '' @ pipes_quote env (os_path_dirname export_dir) @ '' -xf -'',
                      ''-.'')])
              \<or> (\<exists>subdir commit. (subdir, commit) \<in> set subs
                    \<and> pipe =
                        [(''git archive --format=tar --prefix=''
                            @ (sanitize_prefix (os_path_basename export_dir)
                                 @ (if take 2 subdir = ''./'' then drop 2 subdir else subdir)
                                 @ ''/'')
                            @ '' '' @ commit, ''.-''),
                         (''tar -C '' @ pipes_quote env (os_path_dirname export_dir) @ '' -xf -'',
                          ''-.'')]
                    \<and> (trailing_seps (sanitize_prefix (os_path_basename export_dir)
                                        @ (if take 2 subdir = ''./'' then drop 2 subdir else subdir)
                                        @ ''/'') = 1)
                        = ((if take 2 subdir = ''./'' then drop 2 subdir else subdir) \<noteq> []
                           \<and> last (if take 2 subdir = ''./'' then drop 2 subdir else subdir)
                               \<noteq> CHR ''/''))"
  proof (intro ballI allI impI)
    fix ev pipe i out
    assume m: "ev \<in> set (new_events w
                      (snd (dump_tree env export_dir treeish with_submodules recursive w)))"
      and ev: "ev = PipeCopy pipe i out"
    let ?P = "sanitize_prefix (os_path_basename export_dir)"
    let ?od = "os_path_dirname export_dir"
    let ?tar = "(''tar -C '' @ pipes_quote env ?od @ '' -xf -'', ''-.'')"
    from dump_tree_events[OF g] obtain evs where
      e: "trace (snd (dump_tree env export_dir treeish with_submodules recursive w)) = trace w @ evs"
      and o: "only_pipes (range (dump_tree_pipe env ?P treeish ?od)
              \<union> (\<lambda>sc. submodule_pipe env ?P ?od (fst sc) (snd sc)) ` set subs) evs"
      by blast
    from e m have "ev \<in> set evs" by (simp add: new_events_def)
    with o ev have "pipe \<in> range (dump_tree_pipe env ?P treeish ?od)
              \<or> pipe \<in> (\<lambda>sc. submodule_pipe env ?P ?od (fst sc) (snd sc)) ` set subs"
      by (auto simp: only_pipes_def)
    then show "(\<exists>paths. pipe =
                    [(''git archive --format=tar --prefix='' @ ?P @ '' '' @ treeish
                        @ '' -- '' @ join '' '' paths, ''.-''), ?tar])
              \<or> (\<exists>subdir commit. (subdir, commit) \<in> set subs
                    \<and> pipe =
                        [(''git archive --format=tar --prefix=''
                            @ (?P @ (if take 2 subdir = ''./'' then drop 2 subdir else subdir)
                                 @ ''/'')
                            @ '' '' @ commit, ''.-''), ?tar]
                    \<and> (trailing_seps (?P @ (if take 2 subdir = ''./'' then drop 2 subdir else subdir)
                                        @ ''/'') = 1)
                        = ((if take 2 subdir = ''./'' then drop 2 subdir else subdir) \<noteq> []
                           \<and> last (if take 2 subdir = ''./'' then drop 2 subdir else subdir)
                               \<noteq> CHR ''/''))"
    proof
      assume "pipe \<in> range (dump_tree_pipe env ?P treeish ?od)"
      then obtain paths where "pipe = dump_tree_pipe env ?P treeish ?od paths" by blast
      then have "pipe = [(''git archive --format=tar --prefix='' @ ?P @ '' '' @ treeish
                        @ '' -- '' @ join '' '' paths, ''.-''), ?tar]"
        by (simp add: dump_tree_pipe_def archive_cmd_def extract_cmd_def)
      then show ?thesis by blast
    next
      assume "pipe \<in> (\<lambda>sc. submodule_pipe env ?P ?od (fst sc) (snd sc)) ` set subs"
      then obtain sc where sc: "sc \<in> set subs"
        and pp: "pipe = submodule_pipe env ?P ?od (fst sc) (snd sc)" by blast
      let ?a = "if take 2 (fst sc) = ''./'' then drop 2 (fst sc) else fst sc"
      from sc have 1: "(fst sc, snd sc) \<in> set subs" by simp
      from pp have 2: "pipe = [(''git archive --format=tar --prefix='' @ (?P @ ?a @ ''/'')
                                  @ '' '' @ snd sc, ''.-''), ?tar]"
        by (simp add: submodule_pipe_def submodule_prefix_eq archive_cmd_def extract_cmd_def)
      have 3: "(trailing_seps (?P @ ?a @ ''/'') = 1) = (?a \<noteq> [] \<and> last ?a \<noteq> CHR ''/'')"
        by (rule trailing_seps_submodule_prefix)
      from 1 2 3 show ?thesis by blast
    qed
  qed
  from A B show ?thesis by (rule conjI)
qed

text \<open>
  C1 as it is worded fails for a recorded path that ends with a separator:
  nothing is stripped at its end, so the prefix of the archive call ends with
  two separators.
\<close>

theorem submodule_prefix_separators_counterexample:
  "RepoArchive ''tar'' ''pkg-1.0/sub//'' ''/tmp/tmpA/submodule.tar'' ''0123456789abcdef''
     (Some ''sub/'')
     \<in> set (new_events world0
              (snd (git_archive_submodules env_trailing_separator ''HEAD'' ''/out/pkg.tar.gz''
                      ''pkg-1.0'' ''gzip'' ''9'' [] world0)))
   \<and> trailing_seps ''pkg-1.0/sub//'' = 2"
proof -
  have "RepoArchive ''tar'' ''pkg-1.0/sub//'' ''/tmp/tmpA/submodule.tar'' ''0123456789abcdef''
     (Some ''sub/'')
     \<in> set (new_events world0
              (snd (git_archive_submodules env_trailing_separator ''HEAD'' ''/out/pkg.tar.gz''
                      ''pkg-1.0'' ''gzip'' ''9'' [] world0)))"
    by code_simp
  moreover have "trailing_seps ''pkg-1.0/sub//'' = 2"
    by (simp add: trailing_seps_def)
  ultimately show ?thesis by (rule conjI)
qed

theorem submodule_archive_prefix_witness:
  "(\<forall>tr. get_submodules_res env0 tr ''HEAD''
           = Inr [(''./sub1'', ''0123456789abcdef''), (''lib/sub2'', ''fedcba9876543210'')])
   \<and> RepoArchive ''tar'' ''pkg-1.0/sub1/'' ''/tmp/tmpA/submodule.tar'' ''0123456789abcdef''
         (Some ''./sub1'')
       \<in> set (new_events world0
                (snd (git_archive_submodules env0 ''HEAD'' ''/out/pkg.tar.gz'' ''pkg-1.0''
                        ''gzip'' ''9'' [] world0)))
   \<and> ''pkg-1.0/sub1/'' = sanitize_prefix ''pkg-1.0'' @ ''sub1'' @ ''/''
   \<and> trailing_seps ''pkg-1.0/sub1/'' = 1
   \<and> RepoArchive ''tar'' ''pkg-1.0/lib/sub2/'' ''/tmp/tmpA/submodule.tar'' ''fedcba9876543210''
         (Some ''lib/sub2'')
       \<in> set (new_events world0
                (snd (git_archive_submodules env0 ''HEAD'' ''/out/pkg.tar.gz'' ''pkg-1.0''
                        ''gzip'' ''9'' [] world0)))
   \<and> ''pkg-1.0/lib/sub2/'' = sanitize_prefix ''pkg-1.0'' @ ''lib/sub2'' @ ''/''
   \<and> trailing_seps ''pkg-1.0/lib/sub2/'' = 1
   \<and> PipeCopy [(''git archive --format=tar --prefix=pkg-1.0/sub1/ 0123456789abcdef'', ''.-''),
                 (''tar -C /out -xf -'', ''-.'')] [] []
       \<in> set (new_events world0
                (snd (dump_tree env_submodule_fails ''/out/pkg-1.0'' ''HEAD'' True True world0)))
   \<and> ((\<exists>paths. [(''git archive --format=tar --prefix=pkg-1.0/sub1/ 0123456789abcdef'', ''.-''),
                  (''tar -C /out -xf -'', ''-.'')]
          = [(''git archive --format=tar --prefix=''
                @ sanitize_prefix (os_path_basename ''/out/pkg-1.0'') @ '' '' @ ''HEAD''
                @ '' -- '' @ join '' '' paths, ''.-''),
             (''tar -C '' @ pipes_quote env_submodule_fails (os_path_dirname ''/out/pkg-1.0'')
                @ '' -xf -'', ''-.'')])
        \<or> (\<exists>subdir commit.
              (subdir, commit)
                \<in> set [(''./sub1'', ''0123456789abcdef''), (''lib/sub2'', ''fedcba9876543210'')]
              \<and> [(''git archive --format=tar --prefix=pkg-1.0/sub1/ 0123456789abcdef'', ''.-''),
                  (''tar -C /out -xf -'', ''-.'')]
                = [(''git archive --format=tar --prefix=''
                      @ (sanitize_prefix (os_path_basename ''/out/pkg-1.0'')
                           @ (if take 2 subdir = ''./'' then drop 2 subdir else subdir) @ ''/'')
                      @ '' '' @ commit, ''.-''),
                   (''tar -C '' @ pipes_quote env_submodule_fails (os_path_dirname ''/out/pkg-1.0'')
                      @ '' -xf -'', ''-.'')]
              \<and> (trailing_seps (sanitize_prefix (os_path_basename ''/out/pkg-1.0'')
                                  @ (if take 2 subdir = ''./'' then drop 2 subdir else subdir)
                                  @ ''/'') = 1)
                  = ((if take 2 subdir = ''./'' then drop 2 subdir else subdir) \<noteq> []
                     \<and> last (if take 2 subdir = ''./'' then drop 2 subdir else subdir)
                         \<noteq> CHR ''/'')))"
proof -
  have g: "\<forall>tr. get_submodules_res env0 tr ''HEAD''
           = Inr [(''./sub1'', ''0123456789abcdef''), (''lib/sub2'', ''fedcba9876543210'')]"
    by (simp add: env0_def)
  have g': "\<forall>tr. get_submodules_res env_submodule_fails tr ''HEAD''
           = Inr [(''./sub1'', ''0123456789abcdef''), (''lib/sub2'', ''fedcba9876543210'')]"
    by (simp add: env_submodule_fails_def env0_def)
  have m1: "RepoArchive ''tar'' ''pkg-1.0/sub1/'' ''/tmp/tmpA/submodule.tar'' ''0123456789abcdef''
         (Some ''./sub1'')
       \<in> set (new_events world0
                (snd (git_archive_submodules env0 ''HEAD'' ''/out/pkg.tar.gz'' ''pkg-1.0''
                        ''gzip'' ''9'' [] world0)))"
    by code_simp
  have m2: "RepoArchive ''tar'' ''pkg-1.0/lib/sub2/'' ''/tmp/tmpA/submodule.tar'' ''fedcba9876543210''
         (Some ''lib/sub2'')
       \<in> set (new_events world0
                (snd (git_archive_submodules env0 ''HEAD'' ''/out/pkg.tar.gz'' ''pkg-1.0''
                        ''gzip'' ''9'' [] world0)))"
    by code_simp
  have m3: "PipeCopy [(''git archive --format=tar --prefix=pkg-1.0/sub1/ 0123456789abcdef'', ''.-''),
                      (''tar -C /out -xf -'', ''-.'')] [] []
       \<in> set (new_events world0
                (snd (dump_tree env_submodule_fails ''/out/pkg-1.0'' ''HEAD'' True True world0)))"
    by code_simp
  note th = submodule_archive_prefix[OF g, of world0 "''/out/pkg.tar.gz''" "''pkg-1.0''"
              "''gzip''" "''9''" "[]", THEN conjunct1, rule_format]
  note th' = submodule_archive_prefix[OF g', of world0 _ _ _ _ _ "''/out/pkg-1.0''" True True,
              THEN conjunct2, rule_format]
  from th[OF m1 refl] have p1: "''pkg-1.0/sub1/'' = sanitize_prefix ''pkg-1.0'' @ ''sub1'' @ ''/''"
    and t1: "trailing_seps ''pkg-1.0/sub1/'' = 1"
    by simp_all
  from th[OF m2 refl] have p2: "''pkg-1.0/lib/sub2/'' = sanitize_prefix ''pkg-1.0'' @ ''lib/sub2'' @ ''/''"
    and t2: "trailing_seps ''pkg-1.0/lib/sub2/'' = 1"
    by simp_all
  from th'[OF m3 refl] g m1 m2 m3 p1 t1 p2 t2 show ?thesis by blast
qed

end
